theory Spec2Isabelle
  imports Main "HOL-Library.Word" "HOL-Library.Char_ord" "HOL-Library.List_Lexorder"
begin

unbundle bit_operations_syntax

section \<open>flit/common.py: permission normalisation\<close>

text \<open>
  \<^verbatim>\<open>
  def normalize_file_permissions(st_mode):
      new_mode = (st_mode | 0o644) & ~0o133
      if st_mode & 0o100:
          new_mode |= 0o111
      return new_mode
  \<close>
  Python integers are unbounded, so \<open>st_mode\<close> is an \<open>int\<close>. The octal constants are
  \<open>0o644 = 420\<close>, \<open>0o133 = 91\<close>, \<open>0o100 = 64\<close>, \<open>0o111 = 73\<close>, \<open>0o755 = 493\<close>
  and \<open>0o777 = 511\<close>.
\<close>

definition normalize_file_permissions :: "int \<Rightarrow> int" where
  "normalize_file_permissions st_mode =
     (let new_mode = (st_mode OR 420) AND NOT 91
      in if st_mode AND 64 \<noteq> 0 then new_mode OR 73 else new_mode)"

section \<open>Python values, exceptions and strings\<close>

text \<open>
  A Python \<open>str\<close> is modelled as a \<open>string\<close> whose characters are code points below 256;
  \<open>code_point\<close> reads one. The character classes below are those of CPython's
  \<open>str.isdigit\<close>, \<open>str.isspace\<close> and \<open>str.isidentifier\<close> on that range.
  A path is the list of its components.
\<close>

type_synonym path = "string list"

datatype pyval = PyNone | PyStr string | PyInt int | PyBool bool | PyList "pyval list"

text \<open>Truth value testing, as \<^verbatim>\<open>not x\<close> and \<^verbatim>\<open>x and y\<close> use it.\<close>

fun truthy :: "pyval \<Rightarrow> bool" where
  "truthy PyNone = False"
| "truthy (PyStr s) = (s \<noteq> [])"
| "truthy (PyInt i) = (i \<noteq> 0)"
| "truthy (PyBool b) = b"
| "truthy (PyList xs) = (xs \<noteq> [])"

text \<open>
  The exceptions the code raises. A \<open>ValueError\<close> carries what its message is built from;
  \<open>TooManyValues\<close> is the \<open>ValueError\<close> of a failed tuple unpacking.
  \<open>NoDocstringError\<close>, \<open>NoVersionError\<close> and \<open>InvalidVersion\<close> are the subclasses of
  \<open>ProblemInModule\<close>; \<open>OtherError\<close> stands for whatever executing a module may raise.
\<close>

datatype value_error =
    BothExist path path
  | NoFileOrFolder string
  | NoColon string
  | TooManyValues
  | NotIdentifier string
  | NotModulePath string

datatype invalid_version = NotAString pyval | NoLeadingDigit string

datatype error =
    ValueError value_error
  | NoDocstringError
  | NoVersionError
  | InvalidVersion invalid_version
  | AttributeError
  | IndexError
  | KeyError
  | OtherError string

definition code_point :: "char \<Rightarrow> nat" where
  "code_point c = of_char c"

definition isdigit :: "char \<Rightarrow> bool" where
  "isdigit c = (let n = code_point c in (48 \<le> n \<and> n \<le> 57) \<or> n = 178 \<or> n = 179 \<or> n = 185)"

definition isspace :: "char \<Rightarrow> bool" where
  "isspace c = (let n = code_point c in
      (9 \<le> n \<and> n \<le> 13) \<or> (28 \<le> n \<and> n \<le> 32) \<or> n = 133 \<or> n = 160)"

definition xid_start :: "char \<Rightarrow> bool" where
  "xid_start c = (let n = code_point c in
      (65 \<le> n \<and> n \<le> 90) \<or> n = 95 \<or> (97 \<le> n \<and> n \<le> 122) \<or> n = 170 \<or> n = 181 \<or> n = 186
      \<or> (192 \<le> n \<and> n \<le> 214) \<or> (216 \<le> n \<and> n \<le> 246) \<or> 248 \<le> n)"

definition xid_continue :: "char \<Rightarrow> bool" where
  "xid_continue c = (let n = code_point c in xid_start c \<or> (48 \<le> n \<and> n \<le> 57) \<or> n = 183)"

fun isidentifier :: "string \<Rightarrow> bool" where
  "isidentifier [] = False"
| "isidentifier (c # cs) = (xid_start c \<and> list_all xid_continue cs)"

text \<open>\<^verbatim>\<open>s.split(sep)\<close> for a one-character separator: never empty, one more part than
  separators.\<close>

fun str_split :: "char \<Rightarrow> string \<Rightarrow> string list" where
  "str_split sep [] = [[]]"
| "str_split sep (c # cs) =
     (if c = sep then [] # str_split sep cs
      else (case str_split sep cs of [] \<Rightarrow> [[c]] | p # ps \<Rightarrow> (c # p) # ps))"

definition strip :: "string \<Rightarrow> string" where
  "strip s = rev (dropWhile isspace (rev (dropWhile isspace s)))"

definition lstrip :: "string \<Rightarrow> string" where
  "lstrip s = dropWhile isspace s"

definition is_linebreak :: "char \<Rightarrow> bool" where
  "is_linebreak c =
     (let n = code_point c in (10 \<le> n \<and> n \<le> 13) \<or> (28 \<le> n \<and> n \<le> 30) \<or> n = 133)"

text \<open>\<^verbatim>\<open>s.splitlines()\<close>: a carriage return followed by a line feed is one boundary, and
  no empty line follows a final boundary.\<close>

fun splitlines_from :: "string \<Rightarrow> string \<Rightarrow> string list" where
  "splitlines_from cur [] = (if cur = [] then [] else [rev cur])"
| "splitlines_from cur [c] = (if is_linebreak c then [rev cur] else [rev (c # cur)])"
| "splitlines_from cur (c # d # cs) =
     (if c = CHR 0x0D \<and> d = CHR 0x0A then rev cur # splitlines_from [] cs
      else if is_linebreak c then rev cur # splitlines_from [] (d # cs)
      else splitlines_from (c # cur) (d # cs))"

definition splitlines :: "string \<Rightarrow> string list" where
  "splitlines s = splitlines_from [] s"

section \<open>flit/common.py: entry points\<close>

text \<open>
  \<^verbatim>\<open>
  def parse_entry_point(ep: str):
      if ':' not in ep:
          raise ValueError("Invalid entry point (no ':'): %r" % ep)
      mod, func = ep.split(':')
      if not func.isidentifier():
          raise ValueError("Invalid entry point: %r is not an identifier" % func)
      for piece in mod.split('.'):
          if not piece.isidentifier():
              raise ValueError("Invalid entry point: %r is not a module path" % piece)
      return mod, func
  \<close>
\<close>

fun check_pieces :: "string list \<Rightarrow> error + unit" where
  "check_pieces [] = Inr ()"
| "check_pieces (piece # pieces) =
     (if \<not> isidentifier piece then Inl (ValueError (NotModulePath piece))
      else check_pieces pieces)"

definition parse_entry_point :: "string \<Rightarrow> error + (string \<times> string)" where
  "parse_entry_point ep =
     (if CHR '':'' \<notin> set ep then Inl (ValueError (NoColon ep))
      else (case str_split CHR '':'' ep of
              [modname, func] \<Rightarrow>
                (if \<not> isidentifier func then Inl (ValueError (NotIdentifier func))
                 else (case check_pieces (str_split CHR ''.'' modname) of
                         Inl e \<Rightarrow> Inl e
                       | Inr _ \<Rightarrow> Inr (modname, func)))
            | _ \<Rightarrow> Inl (ValueError TooManyValues)))"

text \<open>
  \<^verbatim>\<open>
  def write_entry_points(d, fp):
      for group_name in sorted(d):
          fp.write('[{}]\n'.format(group_name))
          group = d[group_name]
          for name in sorted(group):
              val = group[name]
              fp.write('{}={}\n'.format(name, val))
          fp.write('\n')
  \<close>
  A \<open>dict\<close> is an association list in insertion order, its keys distinct. Iterating a
  dict yields its keys, so \<^verbatim>\<open>sorted(d)\<close> is the sorted list of keys; strings compare
  lexicographically by code point. \<open>fp\<close> is the text written so far.
\<close>

type_synonym ('k, 'v) dict = "('k \<times> 'v) list"

definition sorted_keys :: "('k::linorder, 'v) dict \<Rightarrow> 'k list" where
  "sorted_keys d = sort (map fst d)"

definition getitem :: "('k, 'v) dict \<Rightarrow> 'k \<Rightarrow> error + 'v" where
  "getitem d k = (case map_of d k of None \<Rightarrow> Inl KeyError | Some v \<Rightarrow> Inr v)"

fun write_entries :: "(string, string) dict \<Rightarrow> string list \<Rightarrow> string \<Rightarrow> error + string" where
  "write_entries grp [] fp = Inr fp"
| "write_entries grp (name # names) fp =
     (case getitem grp name of
        Inl e \<Rightarrow> Inl e
      | Inr val \<Rightarrow> write_entries grp names (fp @ name @ ''='' @ val @ ''\<newline>''))"

fun write_groups ::
  "(string, (string, string) dict) dict \<Rightarrow> string list \<Rightarrow> string \<Rightarrow> error + string" where
  "write_groups d [] fp = Inr fp"
| "write_groups d (group_name # rest) fp =
     (case getitem d group_name of
        Inl e \<Rightarrow> Inl e
      | Inr grp \<Rightarrow>
          (case write_entries grp (sorted_keys grp) (fp @ ''['' @ group_name @ '']\<newline>'') of
             Inl e \<Rightarrow> Inl e
           | Inr fp' \<Rightarrow> write_groups d rest (fp' @ ''\<newline>'')))"

definition write_entry_points ::
  "(string, (string, string) dict) dict \<Rightarrow> string \<Rightarrow> error + string" where
  "write_entry_points d fp = write_groups d (sorted_keys d) fp"

text \<open>
  Well-formed two-level dicts (distinct keys at both levels), equality of dicts as
  Python's \<open>==\<close> decides it (the same keys with equal values, whatever the insertion
  order), and the text the specification describes: one section per group in sorted
  order of group name, one \<open>name=value\<close> line per entry in sorted order of entry name.
\<close>

definition dict_ok :: "(string, (string, string) dict) dict \<Rightarrow> bool" where
  "dict_ok d = (distinct (map fst d) \<and> list_all (\<lambda>(g, grp). distinct (map fst grp)) d)"

definition dict_eq :: "('v \<Rightarrow> 'v \<Rightarrow> bool) \<Rightarrow> ('k, 'v) dict \<Rightarrow> ('k, 'v) dict \<Rightarrow> bool" where
  "dict_eq veq d d' =
     list_all (\<lambda>k. rel_option veq (map_of d k) (map_of d' k)) (map fst d @ map fst d')"

definition render_entry :: "string \<times> string \<Rightarrow> string" where
  "render_entry = (\<lambda>(name, val). name @ ''='' @ val @ ''\<newline>'')"

definition render_group :: "string \<times> (string, string) dict \<Rightarrow> string" where
  "render_group = (\<lambda>(group_name, grp).
      ''['' @ group_name @ '']\<newline>'' @ concat (map render_entry (sort_key fst grp)) @ ''\<newline>'')"

definition entry_points_text :: "(string, (string, string) dict) dict \<Rightarrow> string" where
  "entry_points_text d = concat (map render_group (sort_key fst d))"

section \<open>flit/common.py: version checking\<close>

text \<open>
  \<^verbatim>\<open>
  pep440re = re.compile('^'
                     '([1-9]\d*!)?'
                   '(0|[1-9]\d*)'
                 '(.(0|[1-9]\d*))*'
          '((a|b|rc)(0|[1-9]\d*))?'
            '(\.post(0|[1-9]\d*))?'
             '(\.dev(0|[1-9]\d*))?'
          '$')
  def _is_canonical(version)->bool:
      return pep440re.match(version) is not None
  \<close>
  The pattern is a regular expression over four character classes: a literal, \<open>\d\<close>,
  \<open>[1-9]\<close> and the unescaped dot, which matches any character but a line feed.
  Matching is decided by derivatives. \<open>$\<close> matches at the end of the string and also
  just before a line feed that ends it, which \<open>match_anchored\<close> writes out.
\<close>

datatype cclass = Lit char | Digit | NonZero | AnyChar

fun cmatch :: "cclass \<Rightarrow> char \<Rightarrow> bool" where
  "cmatch (Lit a) c = (c = a)"
| "cmatch Digit c = (48 \<le> code_point c \<and> code_point c \<le> 57)"
| "cmatch NonZero c = (49 \<le> code_point c \<and> code_point c \<le> 57)"
| "cmatch AnyChar c = (c \<noteq> CHR 0x0A)"

datatype regex = Nul | Eps | Cls cclass | Seq regex regex | Alt regex regex | Star regex

fun nullable :: "regex \<Rightarrow> bool" where
  "nullable Nul = False"
| "nullable Eps = True"
| "nullable (Cls _) = False"
| "nullable (Seq r s) = (nullable r \<and> nullable s)"
| "nullable (Alt r s) = (nullable r \<or> nullable s)"
| "nullable (Star r) = True"

fun seq :: "regex \<Rightarrow> regex \<Rightarrow> regex" where
  "seq Nul s = Nul"
| "seq Eps s = s"
| "seq r s = Seq r s"

fun alt :: "regex \<Rightarrow> regex \<Rightarrow> regex" where
  "alt Nul s = s"
| "alt r Nul = r"
| "alt r s = Alt r s"

fun deriv :: "char \<Rightarrow> regex \<Rightarrow> regex" where
  "deriv c Nul = Nul"
| "deriv c Eps = Nul"
| "deriv c (Cls k) = (if cmatch k c then Eps else Nul)"
| "deriv c (Seq r s) =
     (if nullable r then alt (seq (deriv c r) s) (deriv c s) else seq (deriv c r) s)"
| "deriv c (Alt r s) = alt (deriv c r) (deriv c s)"
| "deriv c (Star r) = seq (deriv c r) (Star r)"

definition fullmatch :: "regex \<Rightarrow> string \<Rightarrow> bool" where
  "fullmatch r s = nullable (foldl (\<lambda>r c. deriv c r) r s)"

definition match_anchored :: "regex \<Rightarrow> string \<Rightarrow> bool" where
  "match_anchored r s =
     (fullmatch r s \<or> (s \<noteq> [] \<and> last s = CHR 0x0A \<and> fullmatch r (butlast s)))"

definition opt :: "regex \<Rightarrow> regex" where
  "opt r = Alt r Eps"

fun lits :: "string \<Rightarrow> regex" where
  "lits [] = Eps"
| "lits [c] = Cls (Lit c)"
| "lits (c # cs) = Seq (Cls (Lit c)) (lits cs)"

definition number :: regex where
  "number = Alt (Cls (Lit CHR ''0'')) (Seq (Cls NonZero) (Star (Cls Digit)))"

definition pep440re :: regex where
  "pep440re =
     Seq (opt (Seq (Cls NonZero) (Seq (Star (Cls Digit)) (Cls (Lit CHR ''!'')))))
    (Seq number
    (Seq (Star (Seq (Cls AnyChar) number))
    (Seq (opt (Seq (Alt (lits ''a'') (Alt (lits ''b'') (lits ''rc''))) number))
    (Seq (opt (Seq (lits ''.post'') number))
         (opt (Seq (lits ''.dev'') number))))))"

definition is_canonical :: "string \<Rightarrow> bool" where
  "is_canonical version = match_anchored pep440re version"

text \<open>
  \<^verbatim>\<open>
  def check_version(version):
      if not version:
          raise NoVersionError(...)
      if not isinstance(version, str):
          raise InvalidVersion('__version__ must be a string, not {}.'.format(type(version)))
      if not version[0].isdigit():
          raise InvalidVersion('__version__ must start with a number. It is {!r}.'.format(version))
      canonical = _is_canonical(version)
      if not canonical:
          log.warning('Version string (%s) does not match Pep440.', version)
      return canonical
  \<close>
  The result carries the records logged; every \<^verbatim>\<open>raise\<close> comes before any logging.
\<close>

datatype event = LogDebug | LogWarning string | AstPass | ImportPass

definition check_version :: "pyval \<Rightarrow> error + (bool \<times> event list)" where
  "check_version version =
     (if \<not> truthy version then Inl NoVersionError
      else (case version of
              PyStr s \<Rightarrow>
                (case s of
                   [] \<Rightarrow> Inl IndexError
                 | c # _ \<Rightarrow>
                     if \<not> isdigit c then Inl (InvalidVersion (NoLeadingDigit s))
                     else (let canonical = is_canonical s
                           in Inr (canonical, if \<not> canonical then [LogWarning s] else [])))
            | _ \<Rightarrow> Inl (InvalidVersion (NotAString version))))"

section \<open>flit/common.py: docstring and version of a module\<close>

text \<open>
  The syntax tree of a module, as far as the scan looks at it: the top-level statements,
  an assignment with its list of targets and its value, an expression statement.
  \<^verbatim>\<open>
  def get_docstring_and_version_via_ast(target):
      with target.file.open() as f:
          node = ast.parse(f.read())
      for child in node.body:
          is_version_str = (isinstance(child, ast.Assign) and
                            len(child.targets) == 1 and
                            child.targets[0].id == "__version__" and
                            isinstance(child.value, ast.Str))
          if is_version_str:
              version = child.value.s
              break
      else:
          version = None
      return ast.get_docstring(node), version
  \<close>
  Only an \<open>ast.Name\<close> has the attribute \<open>id\<close>. The model starts from the parsed body of
  the file; \<open>cleandoc\<close> is the library's \<open>inspect.cleandoc\<close>, which \<open>ast.get_docstring\<close>
  applies to the text of a leading string expression.
\<close>

datatype expr =
    Name string
  | Str string
  | Num int
  | Attribute expr string
  | Subscript expr expr
  | Tuple "expr list"
  | Call expr "expr list"

datatype stmt =
    Assign "expr list" expr
  | Expr expr
  | Import string
  | Pass

fun is_version_str :: "stmt \<Rightarrow> error + bool" where
  "is_version_str (Assign targets val) =
     (if length targets = 1 then
        (case targets of
           Name ident # _ \<Rightarrow>
             Inr (ident = ''__version__'' \<and> (case val of Str _ \<Rightarrow> True | _ \<Rightarrow> False))
         | _ \<Rightarrow> Inl AttributeError)
      else Inr False)"
| "is_version_str _ = Inr False"

fun find_version :: "stmt list \<Rightarrow> error + string option" where
  "find_version [] = Inr None"
| "find_version (child # rest) =
     (case is_version_str child of
        Inl e \<Rightarrow> Inl e
      | Inr True \<Rightarrow> (case child of Assign _ (Str s) \<Rightarrow> Inr (Some s) | _ \<Rightarrow> Inl AttributeError)
      | Inr False \<Rightarrow> find_version rest)"

fun get_docstring :: "(string \<Rightarrow> string) \<Rightarrow> stmt list \<Rightarrow> string option" where
  "get_docstring cleandoc (Expr (Str s) # _) = Some (cleandoc s)"
| "get_docstring cleandoc _ = None"

definition get_docstring_and_version_via_ast ::
  "(string \<Rightarrow> string) \<Rightarrow> stmt list \<Rightarrow> error + (string option \<times> string option)" where
  "get_docstring_and_version_via_ast cleandoc body =
     (case find_version body of
        Inl e \<Rightarrow> Inl e
      | Inr version \<Rightarrow> Inr (get_docstring cleandoc body, version))"

text \<open>
  \<^verbatim>\<open>
  def get_info_from_module(target):
      log.debug("Loading module %s", target.file)
      docstring, version = get_docstring_and_version_via_ast(target)
      if not (docstring and version):
          docstring, version = get_docstring_and_version_via_import(target)
      if (not docstring) or not docstring.strip():
          raise NoDocstringError(...)
      check_version(version)
      docstring_lines = docstring.lstrip().splitlines()
      return {'summary': docstring_lines[0], 'version': version}
  \<close>
  \<open>imported\<close> is what importing the module gives: the pair of its \<open>__doc__\<close> and
  \<open>__version__\<close>, any objects, or the exception its execution raises. The result comes
  with the trace of the passes run and the records logged, in order.
\<close>

definition of_opt :: "string option \<Rightarrow> pyval" where
  "of_opt x = (case x of None \<Rightarrow> PyNone | Some s \<Rightarrow> PyStr s)"

record info =
  info_summary :: string
  info_version :: pyval

definition get_info_from_module ::
  "(string \<Rightarrow> string) \<Rightarrow> stmt list \<Rightarrow> error + (pyval \<times> pyval) \<Rightarrow> event list \<times> (error + info)" where
  "get_info_from_module cleandoc body imported =
     (case get_docstring_and_version_via_ast cleandoc body of
        Inl e \<Rightarrow> ([LogDebug, AstPass], Inl e)
      | Inr (d0, v0) \<Rightarrow>
          (let fallback = \<not> (truthy (of_opt d0) \<and> truthy (of_opt v0));
               evs = [LogDebug, AstPass] @ (if fallback then [LogDebug, ImportPass] else [])
           in (case (if fallback then imported else Inr (of_opt d0, of_opt v0)) of
                 Inl e \<Rightarrow> (evs, Inl e)
               | Inr (docstring, version) \<Rightarrow>
                   (if \<not> truthy docstring then (evs, Inl NoDocstringError)
                    else (case docstring of
                            PyStr s \<Rightarrow>
                              (if strip s = [] then (evs, Inl NoDocstringError)
                               else (case check_version version of
                                       Inl e \<Rightarrow> (evs, Inl e)
                                     | Inr (canonical, logs) \<Rightarrow>
                                         (case splitlines (lstrip s) of
                                            [] \<Rightarrow> (evs @ logs, Inl IndexError)
                                          | line # _ \<Rightarrow>
                                              (evs @ logs,
                                               Inr \<lparr>info_summary = line, info_version = version\<rparr>))))
                          | _ \<Rightarrow> (evs, Inl AttributeError))))))"

text \<open>When the static pass does not give both a docstring and a version.\<close>

definition static_incomplete :: "string option \<Rightarrow> string option \<Rightarrow> bool" where
  "static_incomplete d v = (d = None \<or> d = Some [] \<or> v = None \<or> v = Some [])"

section \<open>flit/common.py: the module to distribute\<close>

text \<open>
  \<^verbatim>\<open>
  class Module(object):
      def __init__(self, name, directory='.'):
          self.name = name
          pkg_dir = Path(directory, name)
          py_file = Path(directory, name+'.py')
          if pkg_dir.is_dir() and py_file.is_file():
              raise ValueError("Both {} and {} exist".format(pkg_dir, py_file))
          elif pkg_dir.is_dir():
              self.path = pkg_dir
              self.is_package = True
          elif py_file.is_file():
              self.path = py_file
              self.is_package = False
          else:
              raise ValueError("No file/folder found for module {}".format(name))
      @property
      def file(self):
          if self.is_package:
              return self.path / '__init__.py'
          else:
              return self.path
  \<close>
  The file system is the pair of predicates the constructor asks. The property \<open>file\<close>
  is \<open>module_file\<close> here.
\<close>

record filesystem =
  is_dir :: "path \<Rightarrow> bool"
  is_file :: "path \<Rightarrow> bool"

record module =
  name :: string
  path :: path
  is_package :: bool

definition Module :: "filesystem \<Rightarrow> string \<Rightarrow> path \<Rightarrow> error + module" where
  "Module fs nm directory =
     (let pkg_dir = directory @ [nm];
          py_file = directory @ [nm @ ''.py'']
      in if is_dir fs pkg_dir \<and> is_file fs py_file
           then Inl (ValueError (BothExist pkg_dir py_file))
         else if is_dir fs pkg_dir
           then Inr \<lparr>name = nm, path = pkg_dir, is_package = True\<rparr>
         else if is_file fs py_file
           then Inr \<lparr>name = nm, path = py_file, is_package = False\<rparr>
         else Inl (ValueError (NoFileOrFolder nm)))"

definition module_file :: "module \<Rightarrow> path" where
  "module_file self = (if is_package self then path self @ [''__init__.py''] else path self)"

section \<open>flit/build.py\<close>

text \<open>
  \<^verbatim>\<open>
  ALL_FORMATS = {'wheel', 'sdist'}

  @contextmanager
  def unpacked_tarball(path):
      tf = tarfile.open(str(path))
      with TemporaryDirectory() as tmpdir:
          tf.extractall(tmpdir)
          files = os.listdir(tmpdir)
          assert len(files) == 1, files
          yield os.path.join(tmpdir, files[0])

  def main(ini_file: Path, formats=None):
      if not formats:
          formats = ALL_FORMATS
      elif not formats.issubset(ALL_FORMATS):
          raise ValueError("Unknown package formats: {}".format(formats - ALL_FORMATS))
      sdist_info = wheel_info = None
      if 'sdist' in formats:
          sb = SdistBuilder(ini_file)
          sdist_file = sb.build()
          sdist_info = SimpleNamespace(builder=sb, file=sdist_file)
          if 'wheel' in formats:
              dist_dir = ini_file.parent / 'dist'
              with unpacked_tarball(sdist_file) as tmpdir:
                  tmp_ini_file = Path(tmpdir, ini_file.name)
                  wheel_info = make_wheel_in(tmp_ini_file, dist_dir)
      elif 'wheel' in formats:
          wheel_info = wheel_main(ini_file)
      return SimpleNamespace(wheel=wheel_info, sdist=sdist_info)
  \<close>
  The builders of \<open>flit.sdist\<close> and \<open>flit.wheel\<close> and the unpacking of an archive into a
  temporary directory are parameters: each returns its value or the exception it raises.
  \<open>extractall\<close> stands for \<^verbatim>\<open>tarfile.open\<close>, \<^verbatim>\<open>TemporaryDirectory\<close>, \<^verbatim>\<open>extractall\<close> and
  \<^verbatim>\<open>os.listdir\<close>: it gives the temporary directory and its listing, or the exception
  raised together with the temporary directory when that had been created by then. The
  \<^verbatim>\<open>with\<close> block removes the temporary directory on every way out. \<open>main\<close> returns,
  with its result, the trace of the build steps it started. Of the errors, \<open>UnknownPackageFormats\<close>
  is the \<open>ValueError\<close> of \<open>main\<close>, with the set its message prints, \<open>FilesAssertion\<close> is the
  \<open>AssertionError\<close> of \<open>unpacked_tarball\<close>, and \<open>Raised\<close> is an exception of a parameter.
\<close>

definition ALL_FORMATS :: "string set" where
  "ALL_FORMATS = {''wheel'', ''sdist''}"

datatype build_event =
    BuildSdist path
  | UnpackTarball path
  | MakeWheelIn path path
  | RemoveTmpdir path
  | WheelMain path

record ('sb, 'w, 'x) builders =
  SdistBuilder :: "path \<Rightarrow> 'x + 'sb"
  build :: "'sb \<Rightarrow> 'x + path"
  extractall :: "path \<Rightarrow> ('x \<times> path option) + (path \<times> string list)"
  make_wheel_in :: "path \<Rightarrow> path \<Rightarrow> 'x + 'w"
  wheel_main :: "path \<Rightarrow> 'x + 'w"

datatype 'x build_error =
    UnknownPackageFormats "string set"
  | FilesAssertion "string list"
  | Raised 'x

record 'sb sdist_info =
  ns_builder :: 'sb
  ns_file :: path

record ('sb, 'w) build_result =
  wheel :: "'w option"
  sdist :: "'sb sdist_info option"

definition parent :: "path \<Rightarrow> path" where
  "parent p = butlast p"

definition basename :: "path \<Rightarrow> string" where
  "basename p = (if p = [] then [] else last p)"

text \<open>
  Entering \<open>unpacked_tarball\<close>: the temporary directory and the path the block gets, or
  the error, with the removal of the temporary directory that the failed entry has
  already caused.
\<close>

definition unpacked_tarball ::
  "('sb, 'w, 'x) builders \<Rightarrow> path
     \<Rightarrow> build_event list \<times> ('x build_error + (path \<times> path))" where
  "unpacked_tarball env p =
     (case extractall env p of
        Inl (e, created) \<Rightarrow>
          ((case created of None \<Rightarrow> [] | Some tmpdir \<Rightarrow> [RemoveTmpdir tmpdir]), Inl (Raised e))
      | Inr (tmpdir, files) \<Rightarrow>
          (case files of
             [entry] \<Rightarrow> ([], Inr (tmpdir, tmpdir @ [entry]))
           | _ \<Rightarrow> ([RemoveTmpdir tmpdir], Inl (FilesAssertion files))))"

definition build_formats ::
  "('sb, 'w, 'x) builders \<Rightarrow> path \<Rightarrow> string set
     \<Rightarrow> build_event list \<times> ('x build_error + ('sb, 'w) build_result)" where
  "build_formats env ini_file formats =
     (if ''sdist'' \<in> formats then
        (case SdistBuilder env ini_file of
           Inl e \<Rightarrow> ([BuildSdist ini_file], Inl (Raised e))
         | Inr sb \<Rightarrow>
            (case build env sb of
               Inl e \<Rightarrow> ([BuildSdist ini_file], Inl (Raised e))
             | Inr sdist_file \<Rightarrow>
                (let sdist_info = Some \<lparr>ns_builder = sb, ns_file = sdist_file\<rparr>
                 in if ''wheel'' \<in> formats then
                      (let dist_dir = parent ini_file @ [''dist'']
                       in case unpacked_tarball env sdist_file of
                            (removed, Inl e) \<Rightarrow>
                              ([BuildSdist ini_file, UnpackTarball sdist_file] @ removed, Inl e)
                          | (_, Inr (tmpdir, unpacked)) \<Rightarrow>
                              (let tmp_ini_file = unpacked @ [basename ini_file];
                                   evs = [BuildSdist ini_file, UnpackTarball sdist_file,
                                          MakeWheelIn tmp_ini_file dist_dir, RemoveTmpdir tmpdir]
                               in case make_wheel_in env tmp_ini_file dist_dir of
                                    Inl e \<Rightarrow> (evs, Inl (Raised e))
                                  | Inr wheel_info \<Rightarrow>
                                      (evs, Inr \<lparr>wheel = Some wheel_info, sdist = sdist_info\<rparr>)))
                    else ([BuildSdist ini_file], Inr \<lparr>wheel = None, sdist = sdist_info\<rparr>))))
      else if ''wheel'' \<in> formats then
        (case wheel_main env ini_file of
           Inl e \<Rightarrow> ([WheelMain ini_file], Inl (Raised e))
         | Inr wheel_info \<Rightarrow>
             ([WheelMain ini_file], Inr \<lparr>wheel = Some wheel_info, sdist = None\<rparr>))
      else ([], Inr \<lparr>wheel = None, sdist = None\<rparr>))"

definition main ::
  "('sb, 'w, 'x) builders \<Rightarrow> path \<Rightarrow> string set option
     \<Rightarrow> build_event list \<times> ('x build_error + ('sb, 'w) build_result)" where
  "main env ini_file formats =
     (case formats of
        None \<Rightarrow> build_formats env ini_file ALL_FORMATS
      | Some fs \<Rightarrow>
          if fs = {} then build_formats env ini_file ALL_FORMATS
          else if \<not> fs \<subseteq> ALL_FORMATS then ([], Inl (UnknownPackageFormats (fs - ALL_FORMATS)))
          else build_formats env ini_file fs)"

text \<open>The formats a request stands for once the default is filled in.\<close>

definition requested :: "string set option \<Rightarrow> string set" where
  "requested formats =
     (case formats of None \<Rightarrow> ALL_FORMATS | Some fs \<Rightarrow> if fs = {} then ALL_FORMATS else fs)"

section \<open>flit/common.py: the metadata record\<close>

text \<open>
  \<^verbatim>\<open>
  def _normalise_name(self, n):
      return n.lower().replace('-', '_')

  def write_metadata_file(self, fp):
      fields = ['Metadata-Version', 'Name', 'Version', 'Summary', 'Home-page', 'License']
      optional_fields = ['Keywords', 'Author', 'Author-email', 'Maintainer',
                         'Maintainer-email', 'Requires-Python']
      for field in fields:
          value = getattr(self, self._normalise_name(field))
          fp.write("{}: {}\n".format(field, value or 'UNKNOWN'))
      for field in optional_fields:
          value = getattr(self, self._normalise_name(field))
          if value is not None:
              fp.write("{}: {}\n".format(field, value))
      for clsfr in self.classifiers:
          fp.write('Classifier: {}\n'.format(clsfr))
      for req in self.requires_dist:
          fp.write('Requires-Dist: {}\n'.format(req))
      if self.description is not None:
          fp.write('\n' + self.description + '\n')
  \<close>
  The attributes the method reads, each a string or \<open>None\<close>; the attribute \<open>keywords\<close>
  is the field \<open>keywords'\<close>. \<open>getattr\<close> looks an attribute up by its name.
\<close>

definition lower :: "char \<Rightarrow> char" where
  "lower c = (let n = code_point c
              in if (65 \<le> n \<and> n \<le> 90) \<or> (192 \<le> n \<and> n \<le> 222 \<and> n \<noteq> 215)
                 then char_of (n + 32) else c)"

definition replace_char :: "char \<Rightarrow> char \<Rightarrow> string \<Rightarrow> string" where
  "replace_char old new s = map (\<lambda>c. if c = old then new else c) s"

definition normalise_name :: "string \<Rightarrow> string" where
  "normalise_name n = replace_char CHR ''-'' CHR ''_'' (map lower n)"

definition or_unknown :: "string option \<Rightarrow> string" where
  "or_unknown v = (case v of None \<Rightarrow> ''UNKNOWN'' | Some s \<Rightarrow> if s = [] then ''UNKNOWN'' else s)"

record Metadata =
  metadata_version :: "string option"
  name :: "string option"
  version :: "string option"
  summary :: "string option"
  home_page :: "string option"
  license :: "string option"
  keywords' :: "string option"
  author :: "string option"
  author_email :: "string option"
  maintainer :: "string option"
  maintainer_email :: "string option"
  requires_python :: "string option"
  classifiers :: "string list"
  requires_dist :: "string list"
  description :: "string option"

definition fields :: "string list" where
  "fields = [''Metadata-Version'', ''Name'', ''Version'', ''Summary'', ''Home-page'', ''License'']"

definition optional_fields :: "string list" where
  "optional_fields = [''Keywords'', ''Author'', ''Author-email'', ''Maintainer'',
                      ''Maintainer-email'', ''Requires-Python'']"

definition getattr :: "Metadata \<Rightarrow> string \<Rightarrow> error + string option" where
  "getattr self attr =
     (if attr = ''metadata_version'' then Inr (metadata_version self)
      else if attr = ''name'' then Inr (name self)
      else if attr = ''version'' then Inr (version self)
      else if attr = ''summary'' then Inr (summary self)
      else if attr = ''home_page'' then Inr (home_page self)
      else if attr = ''license'' then Inr (license self)
      else if attr = ''keywords'' then Inr (keywords' self)
      else if attr = ''author'' then Inr (author self)
      else if attr = ''author_email'' then Inr (author_email self)
      else if attr = ''maintainer'' then Inr (maintainer self)
      else if attr = ''maintainer_email'' then Inr (maintainer_email self)
      else if attr = ''requires_python'' then Inr (requires_python self)
      else Inl AttributeError)"

fun write_fields :: "Metadata \<Rightarrow> string list \<Rightarrow> string \<Rightarrow> error + string" where
  "write_fields self [] fp = Inr fp"
| "write_fields self (field # rest) fp =
     (case getattr self (normalise_name field) of
        Inl e \<Rightarrow> Inl e
      | Inr v \<Rightarrow> write_fields self rest (fp @ field @ '': '' @ or_unknown v @ ''\<newline>''))"

fun write_optional_fields :: "Metadata \<Rightarrow> string list \<Rightarrow> string \<Rightarrow> error + string" where
  "write_optional_fields self [] fp = Inr fp"
| "write_optional_fields self (field # rest) fp =
     (case getattr self (normalise_name field) of
        Inl e \<Rightarrow> Inl e
      | Inr None \<Rightarrow> write_optional_fields self rest fp
      | Inr (Some v) \<Rightarrow> write_optional_fields self rest (fp @ field @ '': '' @ v @ ''\<newline>''))"

definition write_metadata_file :: "Metadata \<Rightarrow> string \<Rightarrow> error + string" where
  "write_metadata_file self fp =
     (case write_fields self fields fp of
        Inl e \<Rightarrow> Inl e
      | Inr fp1 \<Rightarrow>
          (case write_optional_fields self optional_fields fp1 of
             Inl e \<Rightarrow> Inl e
           | Inr fp2 \<Rightarrow>
               (let fp3 = fold (\<lambda>clsfr f. f @ ''Classifier: '' @ clsfr @ ''\<newline>'')
                               (classifiers self) fp2;
                    fp4 = fold (\<lambda>req f. f @ ''Requires-Dist: '' @ req @ ''\<newline>'')
                               (requires_dist self) fp3
                in (case description self of
                      None \<Rightarrow> Inr fp4
                    | Some d \<Rightarrow> Inr (fp4 @ ''\<newline>'' @ d @ ''\<newline>'')))))"

text \<open>
  \<^verbatim>\<open>
  class Metadata:
      home_page = None
      author = None
      maintainer = None
      maintainer_email = None
      license = None
      description = None
      keywords = None
      requires_python = None
      classifiers = ()
      requires_dist = ()
      metadata_version="1.2"

      def __init__(self, data):
          self.name = data.pop('name')
          self.version = data.pop('version')
          self.author_email = data.pop('author_email')
          self.summary = data.pop('summary')
          for k, v in data.items():
              assert hasattr(self, k), "data does not have attribute '{}'".format(k)
              setattr(self, k, v)
  \<close>
  The constructor on a \<open>data\<close> that holds exactly the four keys it pops, the mandatory
  fields: the loop has nothing left to set, and every other attribute is the default of
  the class.
\<close>

definition Metadata_init ::
  "string option \<Rightarrow> string option \<Rightarrow> string option \<Rightarrow> string option \<Rightarrow> Metadata" where
  "Metadata_init nm ver email summ =
     \<lparr>metadata_version = Some ''1.2'', name = nm, version = ver, summary = summ,
      home_page = None, license = None, keywords' = None, author = None,
      author_email = email, maintainer = None, maintainer_email = None,
      requires_python = None, classifiers = [], requires_dist = [], description = None\<rparr>"

text \<open>Builders that always succeed, to run \<open>main\<close> on.\<close>

definition example_builders :: "(string, string, string) builders" where
  "example_builders =
     \<lparr>SdistBuilder = (\<lambda>ini. Inr ''sb''),
      build = (\<lambda>sb. Inr [''proj'', ''dist'', ''pkg-1.0.tar.gz'']),
      extractall = (\<lambda>p. Inr ([''tmp'', ''x''], [''pkg-1.0''])),
      make_wheel_in = (\<lambda>ini d. Inr ''wheel from sdist''),
      wheel_main = (\<lambda>ini. Inr ''wheel from tree'')\<rparr>"

section \<open>Permission normalisation: proofs\<close>

lemma split_mask: "(x AND NOT k) OR (x AND k) = (x::int)"
  by (auto simp: bit_eq_iff bit_simps)

lemma or_and_absorb: "(x OR a) AND a = (a::int)"
  by (auto simp: bit_eq_iff bit_simps)

lemma owner_exec_bit: "(m AND 64 \<noteq> 0) = bit (m::int) 6"
  using bit_iff_and_push_bit_not_eq_0 [of m 6] by simp

lemma base_low: "((m OR 420) AND NOT 91) AND 511 = (420::int)"
proof -
  have "((m OR 420) AND NOT 91) AND 511 = (m OR 420) AND (NOT 91 AND 511)"
    by (simp only: and.assoc)
  also have "\<dots> = (m OR 420) AND 420" by simp
  finally show ?thesis by (simp only: or_and_absorb)
qed

lemma base_high: "((m OR 420) AND NOT 91) AND NOT 511 = (m::int) AND NOT 511"
proof -
  have "((m OR 420) AND NOT 91) AND NOT 511 = (m OR 420) AND (NOT 91 AND NOT 511)"
    by (simp only: and.assoc)
  also have "\<dots> = (m OR 420) AND NOT 511" by simp
  also have "\<dots> = (m AND NOT 511) OR (420 AND NOT 511)"
    by (simp only: bit.conj_disj_distrib2)
  finally show ?thesis by simp
qed

lemma perm_bits: "normalize_file_permissions m AND 511 = (if bit m 6 then 493 else 420)"
proof -
  have "(((m OR 420) AND NOT 91) OR 73) AND 511
          = (((m OR 420) AND NOT 91) AND 511) OR (73 AND 511)"
    by (simp only: bit.conj_disj_distrib2)
  also have "\<dots> = 420 OR (73 AND 511)" by (simp only: base_low)
  also have "\<dots> = 493" by simp
  finally show ?thesis
    unfolding normalize_file_permissions_def Let_def owner_exec_bit
    by (simp only: base_low if_distrib [of "\<lambda>x. x AND 511"])
qed

lemma high_bits: "normalize_file_permissions m AND NOT 511 = m AND NOT 511"
proof -
  have "(((m OR 420) AND NOT 91) OR 73) AND NOT 511
          = (((m OR 420) AND NOT 91) AND NOT 511) OR (73 AND NOT 511)"
    by (simp only: bit.conj_disj_distrib2)
  also have "\<dots> = (m AND NOT 511) OR (73 AND NOT 511)" by (simp only: base_high)
  also have "\<dots> = m AND NOT 511" by simp
  finally show ?thesis
    unfolding normalize_file_permissions_def Let_def owner_exec_bit
    by (simp only: base_high if_distrib [of "\<lambda>x. x AND NOT 511"] if_cancel)
qed

lemma closed_form:
  "normalize_file_permissions m = (m AND NOT 511) OR (if bit m 6 then 493 else 420)"
  using split_mask [of "normalize_file_permissions m" 511]
  by (simp only: perm_bits high_bits)

lemma exec_bit_kept: "bit (normalize_file_permissions m) 6 = bit m 6"
  by (simp add: closed_form bit_simps)

text \<open>
  Claim C1, as stated: for every raw \<open>st_mode\<close> the result is exactly \<open>0o644\<close> or
  \<open>0o755\<close>. This fails for every mode that carries bits above the nine permission
  bits: the mode of a regular file as \<open>stat\<close> reports it, \<open>0o100644 = 33188\<close>, comes back
  unchanged, which is neither \<open>0o644 = 420\<close> nor \<open>0o755 = 493\<close>.
\<close>

theorem normalize_file_permissions_not_exact_counterexample:
  "normalize_file_permissions 33188 = 33188 \<and>
   normalize_file_permissions 33188 \<noteq> 420 \<and>
   normalize_file_permissions 33188 \<noteq> 493"
  by (simp add: normalize_file_permissions_def)

text \<open>
  Claim C1, amended: for every raw \<open>st_mode\<close>, the nine permission bits of the result
  (the result masked with \<open>0o777 = 511\<close>) are exactly \<open>0o644\<close> when the owner-execute
  bit \<open>0o100\<close> of the raw mode is clear and exactly \<open>0o755\<close> when it is set, whatever the
  other bits of the input are; all bits above the permission bits are those of the raw
  mode, as the source's comment says.
\<close>

theorem normalize_file_permissions_permission_bits:
  "normalize_file_permissions st_mode AND 511 = (if st_mode AND 64 = 0 then 420 else 493) \<and>
   normalize_file_permissions st_mode AND NOT 511 = st_mode AND NOT 511"
proof -
  have "normalize_file_permissions st_mode AND 511 = (if st_mode AND 64 = 0 then 420 else 493)"
    using perm_bits [of st_mode] owner_exec_bit [of st_mode]
    by (cases "st_mode AND 64 = 0") simp_all
  then show ?thesis
    using high_bits [of st_mode] by blast
qed

theorem normalize_file_permissions_permission_bits_witness:
  "normalize_file_permissions 33279 AND 511 = 493 \<and>
   normalize_file_permissions 33279 AND NOT 511 = 32768"
  using normalize_file_permissions_permission_bits [of 33279] by simp

text \<open>
  Claim C9: \<open>normalize_file_permissions\<close> is idempotent: for every raw \<open>st_mode\<close>,
  applying it twice gives the same result as applying it once.
\<close>

theorem normalize_file_permissions_idempotent:
  "normalize_file_permissions (normalize_file_permissions st_mode)
     = normalize_file_permissions st_mode"
proof -
  let ?r = "normalize_file_permissions st_mode"
  have "normalize_file_permissions ?r
          = (?r AND NOT 511) OR (if bit ?r 6 then 493 else 420)"
    by (rule closed_form)
  also have "\<dots> = (st_mode AND NOT 511) OR (if bit st_mode 6 then 493 else 420)"
    by (simp only: high_bits exec_bit_kept)
  finally show ?thesis by (simp only: closed_form)
qed

section \<open>Entry points: proofs\<close>

lemma dict_eq_iff: "dict_eq veq d d' \<longleftrightarrow> (\<forall>k. rel_option veq (map_of d k) (map_of d' k))"
proof
  assume a: "dict_eq veq d d'"
  show "\<forall>k. rel_option veq (map_of d k) (map_of d' k)"
  proof
    fix k
    show "rel_option veq (map_of d k) (map_of d' k)"
    proof (cases "k \<in> set (map fst d @ map fst d')")
      case True
      with a show ?thesis by (simp add: dict_eq_def list_all_iff)
    next
      case False
      then have "map_of d k = None" "map_of d' k = None"
        by (simp_all add: map_of_eq_None_iff)
      then show ?thesis by simp
    qed
  qed
next
  assume "\<forall>k. rel_option veq (map_of d k) (map_of d' k)"
  then show "dict_eq veq d d'" by (simp add: dict_eq_def list_all_iff)
qed

lemma map_insort_key: "map f (insort_key f x xs) = insort (f x) (map f xs)"
  by (induction xs) simp_all

lemma map_sort_key: "map f (sort_key f xs) = sort (map f xs)"
  by (induction xs) (simp_all add: map_insort_key)

lemma write_entries_items:
  assumes "distinct (map fst grp)" "set items \<subseteq> set grp"
  shows "write_entries grp (map fst items) fp = Inr (fp @ concat (map render_entry items))"
  using assms(2)
proof (induction items arbitrary: fp)
  case Nil
  then show ?case by simp
next
  case (Cons it items)
  obtain name val where it: "it = (name, val)" by (cases it)
  with Cons.prems have "(name, val) \<in> set grp" by simp
  with assms(1) have "map_of grp name = Some val" by simp
  then have "getitem grp name = Inr val" by (simp add: getitem_def)
  with Cons it show ?case by (simp add: render_entry_def)
qed

lemma write_entries_sorted:
  assumes "distinct (map fst grp)"
  shows "write_entries grp (sorted_keys grp) fp = Inr (fp @ concat (map render_entry (sort_key fst grp)))"
  using write_entries_items [OF assms, of "sort_key fst grp" fp]
  by (simp add: sorted_keys_def map_sort_key)

lemma write_groups_items:
  assumes "dict_ok d" "set items \<subseteq> set d"
  shows "write_groups d (map fst items) fp = Inr (fp @ concat (map render_group items))"
  using assms(2)
proof (induction items arbitrary: fp)
  case Nil
  then show ?case by simp
next
  case (Cons it items)
  obtain g grp where it: "it = (g, grp)" by (cases it)
  with Cons.prems have mem: "(g, grp) \<in> set d" by simp
  with assms(1) have "map_of d g = Some grp" by (simp add: dict_ok_def)
  then have gi: "getitem d g = Inr grp" by (simp add: getitem_def)
  from mem assms(1) have "distinct (map fst grp)"
    by (auto simp: dict_ok_def list_all_iff)
  note we = write_entries_sorted [OF this]
  from Cons it gi show ?case by (simp add: we render_group_def)
qed

lemma write_entry_points_text:
  assumes "dict_ok d"
  shows "write_entry_points d fp = Inr (fp @ entry_points_text d)"
  using write_groups_items [OF assms, of "sort_key fst d" fp]
  by (simp add: write_entry_points_def sorted_keys_def map_sort_key entry_points_text_def)


lemma dict_eq_keys: "dict_eq veq d d' \<Longrightarrow> set (map fst d) = set (map fst d')"
proof -
  assume e: "dict_eq veq d d'"
  have "dom (map_of d) = dom (map_of d')"
  proof (rule set_eqI)
    fix k
    from e have "rel_option veq (map_of d k) (map_of d' k)" by (simp add: dict_eq_iff)
    then show "k \<in> dom (map_of d) \<longleftrightarrow> k \<in> dom (map_of d')"
      by (cases "map_of d k"; cases "map_of d' k") auto
  qed
  then show ?thesis by (simp add: dom_map_of_conv_image_fst)
qed

lemma sorted_keys_unique:
  assumes "distinct (map fst d)" "distinct (map fst d')" "set (map fst d) = set (map fst d')"
  shows "sorted_keys d = sorted_keys d'"
  unfolding sorted_keys_def
  by (rule sorted_distinct_set_unique) (use assms in simp_all)

lemma getitem_eq: "dict_eq (=) d d' \<Longrightarrow> getitem d k = getitem d' k"
proof -
  assume "dict_eq (=) d d'"
  then have "rel_option (=) (map_of d k) (map_of d' k)" by (simp add: dict_eq_iff)
  then have "map_of d k = map_of d' k" by (simp add: option.rel_eq)
  then show ?thesis by (simp add: getitem_def)
qed

lemma write_entries_cong:
  "dict_eq (=) grp grp' \<Longrightarrow> write_entries grp names fp = write_entries grp' names fp"
  by (induction names arbitrary: fp) (simp_all add: getitem_eq [of grp grp'] split: sum.splits)

lemma write_groups_cong:
  assumes "dict_ok d" "dict_ok d'" "dict_eq (dict_eq (=)) d d'"
  shows "write_groups d names fp = write_groups d' names fp"
proof (induction names arbitrary: fp)
  case Nil
  then show ?case by simp
next
  case (Cons g names)
  from assms(3) have r: "rel_option (dict_eq (=)) (map_of d g) (map_of d' g)"
    by (simp add: dict_eq_iff)
  show ?case
  proof (cases "map_of d g")
    case None
    with r have "map_of d' g = None" by (cases "map_of d' g") auto
    with None show ?thesis by (simp add: getitem_def)
  next
    case (Some grp)
    with r obtain grp' where s': "map_of d' g = Some grp'" and e: "dict_eq (=) grp grp'"
      by (cases "map_of d' g") auto
    from Some assms(1) have d1: "distinct (map fst grp)"
      by (auto simp: dict_ok_def list_all_iff dest: map_of_SomeD)
    from s' assms(2) have d2: "distinct (map fst grp')"
      by (auto simp: dict_ok_def list_all_iff dest: map_of_SomeD)
    have k: "sorted_keys grp = sorted_keys grp'"
      by (rule sorted_keys_unique [OF d1 d2 dict_eq_keys [OF e]])
    from Some s' show ?thesis
      by (simp add: getitem_def k write_entries_cong [OF e] Cons.IH split: sum.splits)
  qed
qed

text \<open>
  Claim C2: for every two-level mapping of groups to entry names, \<open>write_entry_points\<close>
  emits the group sections in sorted order of group name and, within each group, one
  \<open>name=value\<close> line per entry in sorted order of entry name (the text is
  \<open>entry_points_text\<close>, built from the items sorted by key, and the keys of the sorted
  items are sorted at both levels); so two mappings that are equal as dicts give the
  same text whatever their insertion orders.
\<close>

theorem write_entry_points_sorted:
  assumes "dict_ok d"
  shows "write_entry_points d fp = Inr (fp @ entry_points_text d)
         \<and> sorted (map fst (sort_key fst d))
         \<and> list_all (\<lambda>(g, grp). sorted (map fst (sort_key fst grp))) d
         \<and> (\<forall>d'. dict_ok d' \<and> dict_eq (dict_eq (=)) d d'
               \<longrightarrow> write_entry_points d' fp = write_entry_points d fp)"
proof -
  have "\<And>d'. dict_ok d' \<Longrightarrow> dict_eq (dict_eq (=)) d d'
           \<Longrightarrow> write_entry_points d' fp = write_entry_points d fp"
  proof -
    fix d' assume ok: "dict_ok d'" and e: "dict_eq (dict_eq (=)) d d'"
    have "sorted_keys d = sorted_keys d'"
      using assms ok dict_eq_keys [OF e] by (intro sorted_keys_unique) (simp_all add: dict_ok_def)
    then show "write_entry_points d' fp = write_entry_points d fp"
      by (simp add: write_entry_points_def write_groups_cong [OF assms ok e])
  qed
  then show ?thesis
    using write_entry_points_text [OF assms, of fp]
    by (auto simp: list_all_iff)
qed


text \<open>
  The example of the specification: \<open>[console_scripts]\<close> comes before \<open>[other]\<close> and the
  line of \<open>a\<close> before the line of \<open>b\<close>, for either insertion order.
\<close>

theorem write_entry_points_sorted_witness:
  "write_entry_points
     [(''console_scripts'', [(''b'', ''pkg:b_func''), (''a'', ''pkg:a_func'')]),
      (''other'', [(''z'', ''x:y'')])] []
   = Inr ''[console_scripts]\<newline>a=pkg:a_func\<newline>b=pkg:b_func\<newline>\<newline>[other]\<newline>z=x:y\<newline>\<newline>''
   \<and> write_entry_points
     [(''other'', [(''z'', ''x:y'')]),
      (''console_scripts'', [(''a'', ''pkg:a_func''), (''b'', ''pkg:b_func'')])] []
   = write_entry_points
     [(''console_scripts'', [(''b'', ''pkg:b_func''), (''a'', ''pkg:a_func'')]),
      (''other'', [(''z'', ''x:y'')])] []"
proof -
  let ?d = "[(''console_scripts'', [(''b'', ''pkg:b_func''), (''a'', ''pkg:a_func'')]),
             (''other'', [(''z'', ''x:y'')])]"
  let ?d' = "[(''other'', [(''z'', ''x:y'')]),
              (''console_scripts'', [(''a'', ''pkg:a_func''), (''b'', ''pkg:b_func'')])]"
  have ok: "dict_ok ?d" by (simp add: dict_ok_def)
  have ok': "dict_ok ?d'" by (simp add: dict_ok_def)
  have eq: "dict_eq (dict_eq (=)) ?d ?d'" by (simp add: dict_eq_def)
  note t = write_entry_points_sorted [OF ok, of "[]"]
  from t have "write_entry_points ?d [] = Inr (entry_points_text ?d)" by simp
  moreover have "entry_points_text ?d
      = ''[console_scripts]\<newline>a=pkg:a_func\<newline>b=pkg:b_func\<newline>\<newline>[other]\<newline>z=x:y\<newline>\<newline>''"
    by (simp add: entry_points_text_def render_group_def render_entry_def)
  moreover from t ok' eq have "write_entry_points ?d' [] = write_entry_points ?d []" by blast
  ultimately show ?thesis by simp
qed

section \<open>The module to distribute: proofs\<close>

text \<open>
  Claim C8: constructing a \<open>Module\<close> for a name fails with a \<open>ValueError\<close> when both the
  package directory and the single \<open>.py\<close> file exist, and also when neither exists; when
  exactly one exists the module is constructed, and its \<open>file\<close> is \<open>__init__.py\<close> in the
  package directory for a package and the \<open>.py\<close> file itself otherwise.
\<close>

theorem Module_exactly_one:
  "(is_dir fs (directory @ [nm]) \<and> is_file fs (directory @ [nm @ ''.py''])
      \<longrightarrow> Module fs nm directory
            = Inl (ValueError (BothExist (directory @ [nm]) (directory @ [nm @ ''.py'']))))
   \<and> (\<not> is_dir fs (directory @ [nm]) \<and> \<not> is_file fs (directory @ [nm @ ''.py''])
      \<longrightarrow> Module fs nm directory = Inl (ValueError (NoFileOrFolder nm)))
   \<and> (is_dir fs (directory @ [nm]) \<and> \<not> is_file fs (directory @ [nm @ ''.py''])
      \<longrightarrow> (\<exists>m. Module fs nm directory = Inr m \<and> is_package m \<and> module.name m = nm
                \<and> module_file m = directory @ [nm, ''__init__.py'']))
   \<and> (\<not> is_dir fs (directory @ [nm]) \<and> is_file fs (directory @ [nm @ ''.py''])
      \<longrightarrow> (\<exists>m. Module fs nm directory = Inr m \<and> \<not> is_package m \<and> module.name m = nm
                \<and> module_file m = directory @ [nm @ ''.py'']))"
  by (simp add: Module_def module_file_def Let_def)

text \<open>The four cases on concrete file systems.\<close>

theorem Module_exactly_one_witness:
  "Module \<lparr>is_dir = (\<lambda>p. p = [''proj'', ''pkg'']), is_file = (\<lambda>p. p = [''proj'', ''pkg.py''])\<rparr>
      ''pkg'' [''proj'']
     = Inl (ValueError (BothExist [''proj'', ''pkg''] [''proj'', ''pkg.py'']))
   \<and> Module \<lparr>is_dir = (\<lambda>p. False), is_file = (\<lambda>p. False)\<rparr> ''pkg'' [''proj'']
     = Inl (ValueError (NoFileOrFolder ''pkg''))
   \<and> (\<exists>m. Module \<lparr>is_dir = (\<lambda>p. p = [''proj'', ''pkg'']), is_file = (\<lambda>p. False)\<rparr>
             ''pkg'' [''proj''] = Inr m
          \<and> module_file m = [''proj'', ''pkg'', ''__init__.py''])
   \<and> (\<exists>m. Module \<lparr>is_dir = (\<lambda>p. False), is_file = (\<lambda>p. p = [''proj'', ''pkg.py''])\<rparr>
             ''pkg'' [''proj''] = Inr m
          \<and> module_file m = [''proj'', ''pkg.py''])"
  using
    Module_exactly_one [of "\<lparr>is_dir = (\<lambda>p. p = [''proj'', ''pkg'']), is_file = (\<lambda>p. p = [''proj'', ''pkg.py''])\<rparr>" "[''proj'']" "''pkg''"]
    Module_exactly_one [of "\<lparr>is_dir = (\<lambda>p. False), is_file = (\<lambda>p. False)\<rparr>" "[''proj'']" "''pkg''"]
    Module_exactly_one [of "\<lparr>is_dir = (\<lambda>p. p = [''proj'', ''pkg'']), is_file = (\<lambda>p. False)\<rparr>" "[''proj'']" "''pkg''"]
    Module_exactly_one [of "\<lparr>is_dir = (\<lambda>p. False), is_file = (\<lambda>p. p = [''proj'', ''pkg.py''])\<rparr>" "[''proj'']" "''pkg''"]
  by auto

section \<open>The metadata record: proofs\<close>

lemma normalise_field_names:
  "map normalise_name fields
     = [''metadata_version'', ''name'', ''version'', ''summary'', ''home_page'', ''license'']"
  "map normalise_name optional_fields
     = [''keywords'', ''author'', ''author_email'', ''maintainer'', ''maintainer_email'',
        ''requires_python'']"
  by code_simp+

lemma fold_write: "fold (\<lambda>x f. f @ g x) xs fp = fp @ concat (map g xs)"
  by (induction xs arbitrary: fp) simp_all

lemma write_fields_all:
  "write_fields self fields fp =
     Inr (fp @ ''Metadata-Version'' @ '': '' @ or_unknown (metadata_version self) @ ''\<newline>''
             @ ''Name'' @ '': '' @ or_unknown (name self) @ ''\<newline>''
             @ ''Version'' @ '': '' @ or_unknown (version self) @ ''\<newline>''
             @ ''Summary'' @ '': '' @ or_unknown (summary self) @ ''\<newline>''
             @ ''Home-page'' @ '': '' @ or_unknown (home_page self) @ ''\<newline>''
             @ ''License'' @ '': '' @ or_unknown (license self) @ ''\<newline>'')"
  using normalise_field_names(1)
  by (simp add: fields_def getattr_def)

lemma or_unknown_unset_or_empty:
  "or_unknown v = (if v = None \<or> v = Some [] then ''UNKNOWN'' else the v)"
  by (cases v) (simp_all add: or_unknown_def)

lemma write_optional_fields_all:
  "write_optional_fields self optional_fields fp =
     Inr (fp @ (case keywords' self of None \<Rightarrow> [] | Some s \<Rightarrow> ''Keywords'' @ '': '' @ s @ ''\<newline>'')
             @ (case author self of None \<Rightarrow> [] | Some s \<Rightarrow> ''Author'' @ '': '' @ s @ ''\<newline>'')
             @ (case author_email self of None \<Rightarrow> [] | Some s \<Rightarrow> ''Author-email'' @ '': '' @ s @ ''\<newline>'')
             @ (case maintainer self of None \<Rightarrow> [] | Some s \<Rightarrow> ''Maintainer'' @ '': '' @ s @ ''\<newline>'')
             @ (case maintainer_email self of None \<Rightarrow> []
                | Some s \<Rightarrow> ''Maintainer-email'' @ '': '' @ s @ ''\<newline>'')
             @ (case requires_python self of None \<Rightarrow> []
                | Some s \<Rightarrow> ''Requires-Python'' @ '': '' @ s @ ''\<newline>''))"
  using normalise_field_names(2)
  by (simp add: optional_fields_def getattr_def split: option.split)

lemma write_metadata_file_text:
  "write_metadata_file self fp =
     Inr (fp @ ''Metadata-Version'' @ '': '' @ or_unknown (metadata_version self) @ ''\<newline>''
             @ ''Name'' @ '': '' @ or_unknown (name self) @ ''\<newline>''
             @ ''Version'' @ '': '' @ or_unknown (version self) @ ''\<newline>''
             @ ''Summary'' @ '': '' @ or_unknown (summary self) @ ''\<newline>''
             @ ''Home-page'' @ '': '' @ or_unknown (home_page self) @ ''\<newline>''
             @ ''License'' @ '': '' @ or_unknown (license self) @ ''\<newline>''
             @ (case keywords' self of None \<Rightarrow> [] | Some s \<Rightarrow> ''Keywords'' @ '': '' @ s @ ''\<newline>'')
             @ (case author self of None \<Rightarrow> [] | Some s \<Rightarrow> ''Author'' @ '': '' @ s @ ''\<newline>'')
             @ (case author_email self of None \<Rightarrow> [] | Some s \<Rightarrow> ''Author-email'' @ '': '' @ s @ ''\<newline>'')
             @ (case maintainer self of None \<Rightarrow> [] | Some s \<Rightarrow> ''Maintainer'' @ '': '' @ s @ ''\<newline>'')
             @ (case maintainer_email self of None \<Rightarrow> []
                | Some s \<Rightarrow> ''Maintainer-email'' @ '': '' @ s @ ''\<newline>'')
             @ (case requires_python self of None \<Rightarrow> []
                | Some s \<Rightarrow> ''Requires-Python'' @ '': '' @ s @ ''\<newline>'')
             @ concat (map (\<lambda>clsfr. ''Classifier: '' @ clsfr @ ''\<newline>'') (classifiers self))
             @ concat (map (\<lambda>req. ''Requires-Dist: '' @ req @ ''\<newline>'') (requires_dist self))
             @ (case description self of None \<Rightarrow> [] | Some d \<Rightarrow> ''\<newline>'' @ d @ ''\<newline>''))"
  unfolding write_metadata_file_def write_fields_all write_optional_fields_all sum.case
    Let_def fold_write
  by (cases "description self") simp_all

text \<open>
  Claim C5, as stated: an instance with only the mandatory fields set emits no
  optional-field line. \<open>author_email\<close> is one of the four fields the constructor demands,
  and Author-email is in the list of optional fields of \<open>write_metadata_file\<close>: the
  instance built from the four mandatory fields alone has an Author-email line.
\<close>

theorem write_metadata_file_mandatory_only_counterexample:
  "write_metadata_file
     (Metadata_init (Some ''pkg'') (Some ''1.0'') (Some ''a@b.c'') (Some ''A package'')) []
   = Inr ''Metadata-Version: 1.2\<newline>Name: pkg\<newline>Version: 1.0\<newline>Summary: A package\<newline>Home-page: UNKNOWN\<newline>License: UNKNOWN\<newline>Author-email: a@b.c\<newline>''
   \<and> write_metadata_file
     (Metadata_init (Some ''pkg'') (Some ''1.0'') (Some ''a@b.c'') (Some ''A package'')) []
   \<noteq> Inr ''Metadata-Version: 1.2\<newline>Name: pkg\<newline>Version: 1.0\<newline>Summary: A package\<newline>Home-page: UNKNOWN\<newline>License: UNKNOWN\<newline>''"
  by (simp add: write_metadata_file_text Metadata_init_def or_unknown_def)

text \<open>
  Claim C5, amended: for every \<open>Metadata\<close>, \<open>write_metadata_file\<close> writes exactly, in order:
  the six mandatory lines Metadata-Version, Name, Version, Summary, Home-page, License,
  each always present, with \<open>UNKNOWN\<close> in place of a value that is unset (\<open>None\<close>) or
  empty; then the optional fields Keywords, Author, Author-email, Maintainer,
  Maintainer-email, Requires-Python, each only when it is not \<open>None\<close>; then one
  \<open>Classifier:\<close> line per classifier; then one \<open>Requires-Dist:\<close> line per dependency; then
  a blank line and the description, only when there is a description. In particular an
  instance built from the four mandatory fields of the constructor alone (name, version,
  author_email, summary) has \<open>UNKNOWN\<close> for Home-page and License, the Author-email line
  as its only optional-field line when the address is not \<open>None\<close>, and no description
  block.
\<close>

theorem write_metadata_file_lines:
  "(let mandatory = (\<lambda>field v. field @ '': ''
                        @ (if v = None \<or> v = Some [] then ''UNKNOWN'' else the v) @ ''\<newline>'');
        optional = (\<lambda>field v. case v of None \<Rightarrow> [] | Some s \<Rightarrow> field @ '': '' @ s @ ''\<newline>'')
    in write_metadata_file self fp =
         Inr (fp @ mandatory ''Metadata-Version'' (metadata_version self)
                 @ mandatory ''Name'' (name self)
                 @ mandatory ''Version'' (version self)
                 @ mandatory ''Summary'' (summary self)
                 @ mandatory ''Home-page'' (home_page self)
                 @ mandatory ''License'' (license self)
                 @ optional ''Keywords'' (keywords' self)
                 @ optional ''Author'' (author self)
                 @ optional ''Author-email'' (author_email self)
                 @ optional ''Maintainer'' (maintainer self)
                 @ optional ''Maintainer-email'' (maintainer_email self)
                 @ optional ''Requires-Python'' (requires_python self)
                 @ concat (map (\<lambda>clsfr. ''Classifier: '' @ clsfr @ ''\<newline>'') (classifiers self))
                 @ concat (map (\<lambda>req. ''Requires-Dist: '' @ req @ ''\<newline>'') (requires_dist self))
                 @ (case description self of None \<Rightarrow> [] | Some d \<Rightarrow> ''\<newline>'' @ d @ ''\<newline>''))
       \<and> write_metadata_file (Metadata_init nm ver email summ) fp =
         Inr (fp @ ''Metadata-Version: 1.2\<newline>''
                 @ mandatory ''Name'' nm
                 @ mandatory ''Version'' ver
                 @ mandatory ''Summary'' summ
                 @ ''Home-page: UNKNOWN\<newline>''
                 @ ''License: UNKNOWN\<newline>''
                 @ optional ''Author-email'' email))"
proof -
  have general: "write_metadata_file self fp =
         Inr (fp @ ''Metadata-Version'' @ '': ''
                     @ (if metadata_version self = None \<or> metadata_version self = Some []
                        then ''UNKNOWN'' else the (metadata_version self)) @ ''\<newline>''
                 @ ''Name'' @ '': '' @ (if name self = None \<or> name self = Some []
                        then ''UNKNOWN'' else the (name self)) @ ''\<newline>''
                 @ ''Version'' @ '': '' @ (if version self = None \<or> version self = Some []
                        then ''UNKNOWN'' else the (version self)) @ ''\<newline>''
                 @ ''Summary'' @ '': '' @ (if summary self = None \<or> summary self = Some []
                        then ''UNKNOWN'' else the (summary self)) @ ''\<newline>''
                 @ ''Home-page'' @ '': '' @ (if home_page self = None \<or> home_page self = Some []
                        then ''UNKNOWN'' else the (home_page self)) @ ''\<newline>''
                 @ ''License'' @ '': '' @ (if license self = None \<or> license self = Some []
                        then ''UNKNOWN'' else the (license self)) @ ''\<newline>''
             @ (case keywords' self of None \<Rightarrow> [] | Some s \<Rightarrow> ''Keywords'' @ '': '' @ s @ ''\<newline>'')
             @ (case author self of None \<Rightarrow> [] | Some s \<Rightarrow> ''Author'' @ '': '' @ s @ ''\<newline>'')
             @ (case author_email self of None \<Rightarrow> [] | Some s \<Rightarrow> ''Author-email'' @ '': '' @ s @ ''\<newline>'')
             @ (case maintainer self of None \<Rightarrow> [] | Some s \<Rightarrow> ''Maintainer'' @ '': '' @ s @ ''\<newline>'')
             @ (case maintainer_email self of None \<Rightarrow> []
                | Some s \<Rightarrow> ''Maintainer-email'' @ '': '' @ s @ ''\<newline>'')
             @ (case requires_python self of None \<Rightarrow> []
                | Some s \<Rightarrow> ''Requires-Python'' @ '': '' @ s @ ''\<newline>'')
             @ concat (map (\<lambda>clsfr. ''Classifier: '' @ clsfr @ ''\<newline>'') (classifiers self))
             @ concat (map (\<lambda>req. ''Requires-Dist: '' @ req @ ''\<newline>'') (requires_dist self))
             @ (case description self of None \<Rightarrow> [] | Some d \<Rightarrow> ''\<newline>'' @ d @ ''\<newline>''))"
    unfolding write_metadata_file_text or_unknown_unset_or_empty by (rule refl)
  have particular: "write_metadata_file (Metadata_init nm ver email summ) fp =
         Inr (fp @ ''Metadata-Version: 1.2\<newline>''
                 @ ''Name'' @ '': '' @ (if nm = None \<or> nm = Some [] then ''UNKNOWN'' else the nm) @ ''\<newline>''
                 @ ''Version'' @ '': '' @ (if ver = None \<or> ver = Some [] then ''UNKNOWN'' else the ver) @ ''\<newline>''
                 @ ''Summary'' @ '': '' @ (if summ = None \<or> summ = Some [] then ''UNKNOWN'' else the summ) @ ''\<newline>''
                 @ ''Home-page: UNKNOWN\<newline>''
                 @ ''License: UNKNOWN\<newline>''
                 @ (case email of None \<Rightarrow> [] | Some s \<Rightarrow> ''Author-email'' @ '': '' @ s @ ''\<newline>''))"
    unfolding write_metadata_file_text or_unknown_unset_or_empty
    by (simp add: Metadata_init_def)
  show ?thesis
    unfolding Let_def append_assoc by (rule conjI [OF general particular])
qed

text \<open>
  A record with an empty home page, no licence, an author and an address, classifiers, a
  dependency and a description; and the instance built from the mandatory fields alone.
\<close>

theorem write_metadata_file_lines_witness:
  "write_metadata_file
     \<lparr>metadata_version = Some ''1.2'', name = Some ''pkg'', version = Some ''1.0'',
      summary = Some ''A package'', home_page = Some [], license = None, keywords' = None,
      author = Some ''Ann'', author_email = Some ''a@b.c'', maintainer = None,
      maintainer_email = None, requires_python = None,
      classifiers = [''Topic :: X'', ''Topic :: Y''], requires_dist = [''requests''],
      description = Some ''Long text.''\<rparr> []
   = Inr ''Metadata-Version: 1.2\<newline>Name: pkg\<newline>Version: 1.0\<newline>Summary: A package\<newline>Home-page: UNKNOWN\<newline>License: UNKNOWN\<newline>Author: Ann\<newline>Author-email: a@b.c\<newline>Classifier: Topic :: X\<newline>Classifier: Topic :: Y\<newline>Requires-Dist: requests\<newline>\<newline>Long text.\<newline>''
   \<and> write_metadata_file
     (Metadata_init (Some ''pkg'') (Some ''1.0'') None (Some [])) []
   = Inr ''Metadata-Version: 1.2\<newline>Name: pkg\<newline>Version: 1.0\<newline>Summary: UNKNOWN\<newline>Home-page: UNKNOWN\<newline>License: UNKNOWN\<newline>''"
  using write_metadata_file_lines [of
     "\<lparr>metadata_version = Some ''1.2'', name = Some ''pkg'', version = Some ''1.0'',
      summary = Some ''A package'', home_page = Some [], license = None, keywords' = None,
      author = Some ''Ann'', author_email = Some ''a@b.c'', maintainer = None,
      maintainer_email = None, requires_python = None,
      classifiers = [''Topic :: X'', ''Topic :: Y''], requires_dist = [''requests''],
      description = Some ''Long text.''\<rparr>" "[]" "Some ''pkg''" "Some ''1.0''" None "Some []"]
  by (simp add: Let_def)


section \<open>flit/build.py: proofs\<close>

lemma requested_cases:
  assumes "formats = None \<or> (\<exists>fs. formats = Some fs \<and> (fs = {} \<or> fs \<subseteq> ALL_FORMATS))"
  shows "main env ini_file formats = build_formats env ini_file (requested formats)"
  using assms by (auto simp: main_def requested_def)

text \<open>
  Claim C7: for every non-empty set of requested formats that is not a subset of
  \<open>{wheel, sdist}\<close>, \<open>main\<close> fails at once with the error that carries the unknown
  formats (a non-empty set), having started no build step. Every other request is
  accepted and stands for a non-empty subset of the two formats; when the build steps
  it runs succeed, \<open>main\<close> returns the record whose \<open>wheel\<close> and \<open>sdist\<close> entries hold the
  info of each format produced and \<open>None\<close> for each format not produced.
\<close>

theorem main_formats:
  "(fs \<noteq> {} \<and> \<not> fs \<subseteq> ALL_FORMATS
      \<longrightarrow> main env ini_file (Some fs) = ([], Inl (UnknownPackageFormats (fs - ALL_FORMATS)))
          \<and> fs - ALL_FORMATS \<noteq> {})
   \<and> ((formats = None \<or> (\<exists>fs. formats = Some fs \<and> (fs = {} \<or> fs \<subseteq> ALL_FORMATS)))
      \<longrightarrow> requested formats \<noteq> {} \<and> requested formats \<subseteq> ALL_FORMATS
        \<and> (''sdist'' \<in> requested formats \<and> ''wheel'' \<in> requested formats
             \<and> SdistBuilder env ini_file = Inr sb \<and> build env sb = Inr sdist_file
             \<and> extractall env sdist_file = Inr (tmpdir, [entry])
             \<and> make_wheel_in env (tmpdir @ [entry, basename ini_file])
                                  (parent ini_file @ [''dist'']) = Inr w
            \<longrightarrow> snd (main env ini_file formats)
                  = Inr \<lparr>wheel = Some w, sdist = Some \<lparr>ns_builder = sb, ns_file = sdist_file\<rparr>\<rparr>)
        \<and> (''sdist'' \<in> requested formats \<and> ''wheel'' \<notin> requested formats
             \<and> SdistBuilder env ini_file = Inr sb \<and> build env sb = Inr sdist_file
            \<longrightarrow> main env ini_file formats
                  = ([BuildSdist ini_file],
                     Inr \<lparr>wheel = None, sdist = Some \<lparr>ns_builder = sb, ns_file = sdist_file\<rparr>\<rparr>))
        \<and> (''sdist'' \<notin> requested formats \<and> wheel_main env ini_file = Inr w
            \<longrightarrow> main env ini_file formats
                  = ([WheelMain ini_file], Inr \<lparr>wheel = Some w, sdist = None\<rparr>)))"
proof (intro conjI impI)
  assume "fs \<noteq> {} \<and> \<not> fs \<subseteq> ALL_FORMATS"
  then show "main env ini_file (Some fs) = ([], Inl (UnknownPackageFormats (fs - ALL_FORMATS)))"
    by (simp add: main_def)
next
  assume "fs \<noteq> {} \<and> \<not> fs \<subseteq> ALL_FORMATS"
  then show "fs - ALL_FORMATS \<noteq> {}" by blast
next
  assume a: "formats = None \<or> (\<exists>fs. formats = Some fs \<and> (fs = {} \<or> fs \<subseteq> ALL_FORMATS))"
  then show "requested formats \<noteq> {}"
    by (auto simp: requested_def ALL_FORMATS_def split: if_splits)
next
  assume a: "formats = None \<or> (\<exists>fs. formats = Some fs \<and> (fs = {} \<or> fs \<subseteq> ALL_FORMATS))"
  then show "requested formats \<subseteq> ALL_FORMATS"
    by (auto simp: requested_def split: if_splits)
next
  assume a: "formats = None \<or> (\<exists>fs. formats = Some fs \<and> (fs = {} \<or> fs \<subseteq> ALL_FORMATS))"
    and b: "''sdist'' \<in> requested formats \<and> ''wheel'' \<in> requested formats
             \<and> SdistBuilder env ini_file = Inr sb \<and> build env sb = Inr sdist_file
             \<and> extractall env sdist_file = Inr (tmpdir, [entry])
             \<and> make_wheel_in env (tmpdir @ [entry, basename ini_file])
                                  (parent ini_file @ [''dist'']) = Inr w"
  from b show "snd (main env ini_file formats)
                  = Inr \<lparr>wheel = Some w, sdist = Some \<lparr>ns_builder = sb, ns_file = sdist_file\<rparr>\<rparr>"
    unfolding requested_cases [OF a]
    by (simp add: build_formats_def unpacked_tarball_def)
next
  assume a: "formats = None \<or> (\<exists>fs. formats = Some fs \<and> (fs = {} \<or> fs \<subseteq> ALL_FORMATS))"
    and b: "''sdist'' \<in> requested formats \<and> ''wheel'' \<notin> requested formats
             \<and> SdistBuilder env ini_file = Inr sb \<and> build env sb = Inr sdist_file"
  from b show "main env ini_file formats
                  = ([BuildSdist ini_file],
                     Inr \<lparr>wheel = None, sdist = Some \<lparr>ns_builder = sb, ns_file = sdist_file\<rparr>\<rparr>)"
    unfolding requested_cases [OF a]
    by (simp add: build_formats_def)
next
  assume a: "formats = None \<or> (\<exists>fs. formats = Some fs \<and> (fs = {} \<or> fs \<subseteq> ALL_FORMATS))"
    and b: "''sdist'' \<notin> requested formats \<and> wheel_main env ini_file = Inr w"
  from a have "requested formats \<noteq> {}" "requested formats \<subseteq> ALL_FORMATS"
    by (auto simp: requested_def ALL_FORMATS_def split: if_splits)
  with b have "''wheel'' \<in> requested formats"
    by (auto simp: ALL_FORMATS_def)
  with b show "main env ini_file formats
                  = ([WheelMain ini_file], Inr \<lparr>wheel = Some w, sdist = None\<rparr>)"
    unfolding requested_cases [OF a]
    by (simp add: build_formats_def)
qed

text \<open>An unknown format, the default request, and each format alone.\<close>

theorem main_formats_witness:
  "main example_builders [''proj'', ''flit.ini''] (Some {''wheel'', ''egg''})
     = ([], Inl (UnknownPackageFormats {''egg''}))
   \<and> snd (main example_builders [''proj'', ''flit.ini''] None)
     = Inr \<lparr>wheel = Some ''wheel from sdist'',
            sdist = Some \<lparr>ns_builder = ''sb'', ns_file = [''proj'', ''dist'', ''pkg-1.0.tar.gz'']\<rparr>\<rparr>
   \<and> main example_builders [''proj'', ''flit.ini''] (Some {''sdist''})
     = ([BuildSdist [''proj'', ''flit.ini'']],
        Inr \<lparr>wheel = None,
             sdist = Some \<lparr>ns_builder = ''sb'', ns_file = [''proj'', ''dist'', ''pkg-1.0.tar.gz'']\<rparr>\<rparr>)
   \<and> main example_builders [''proj'', ''flit.ini''] (Some {''wheel''})
     = ([WheelMain [''proj'', ''flit.ini'']],
        Inr \<lparr>wheel = Some ''wheel from tree'', sdist = None\<rparr>)"
proof -
  have eggs: "{''wheel'', ''egg''} - ALL_FORMATS = {''egg''}"
    by (auto simp: ALL_FORMATS_def)
  have r: "requested None = {''wheel'', ''sdist''}" "requested (Some {''sdist''}) = {''sdist''}"
    "requested (Some {''wheel''}) = {''wheel''}"
    by (simp_all add: requested_def ALL_FORMATS_def)
  have 1: "main example_builders [''proj'', ''flit.ini''] (Some {''wheel'', ''egg''})
     = ([], Inl (UnknownPackageFormats {''egg''}))"
    using main_formats [of "{''wheel'', ''egg''}" example_builders "[''proj'', ''flit.ini'']" None]
    by (simp add: eggs ALL_FORMATS_def)
  have 2: "snd (main example_builders [''proj'', ''flit.ini''] None)
     = Inr \<lparr>wheel = Some ''wheel from sdist'',
            sdist = Some \<lparr>ns_builder = ''sb'', ns_file = [''proj'', ''dist'', ''pkg-1.0.tar.gz'']\<rparr>\<rparr>"
    using main_formats [of "{}" example_builders "[''proj'', ''flit.ini'']" None
        "''sb''" "[''proj'', ''dist'', ''pkg-1.0.tar.gz'']" "[''tmp'', ''x'']" "''pkg-1.0''"
        "''wheel from sdist''"]
    by (simp add: r example_builders_def)
  have 3: "main example_builders [''proj'', ''flit.ini''] (Some {''sdist''})
     = ([BuildSdist [''proj'', ''flit.ini'']],
        Inr \<lparr>wheel = None,
             sdist = Some \<lparr>ns_builder = ''sb'', ns_file = [''proj'', ''dist'', ''pkg-1.0.tar.gz'']\<rparr>\<rparr>)"
    using main_formats [of "{}" example_builders "[''proj'', ''flit.ini'']" "Some {''sdist''}"
        "''sb''" "[''proj'', ''dist'', ''pkg-1.0.tar.gz'']"]
    by (simp add: r example_builders_def ALL_FORMATS_def)
  have 4: "main example_builders [''proj'', ''flit.ini''] (Some {''wheel''})
     = ([WheelMain [''proj'', ''flit.ini'']],
        Inr \<lparr>wheel = Some ''wheel from tree'', sdist = None\<rparr>)"
    using main_formats [of "{}" example_builders "[''proj'', ''flit.ini'']" "Some {''wheel''}"
        _ _ _ _ "''wheel from tree''"]
    by (simp add: r example_builders_def ALL_FORMATS_def)
  from 1 2 3 4 show ?thesis by blast
qed

section \<open>Parsing an entry point: proofs\<close>

lemma str_split_not_Nil: "str_split c s \<noteq> []"
  by (induction s) (auto split: list.splits)

lemma str_split_no_sep: "c \<notin> set s \<Longrightarrow> str_split c s = [s]"
  by (induction s) auto

lemma str_split_at_sep: "c \<notin> set a \<Longrightarrow> str_split c (a @ c # b) = a # str_split c b"
  by (induction a) auto

lemma str_split_single: "str_split c s = [b] \<Longrightarrow> s = b \<and> c \<notin> set b"
proof (induction s arbitrary: b)
  case Nil
  then show ?case by simp
next
  case (Cons x xs)
  show ?case
  proof (cases "x = c")
    case True
    with Cons.prems show ?thesis by (simp add: str_split_not_Nil)
  next
    case False
    with Cons.prems obtain p where "str_split c xs = [p]" "b = x # p"
      by (auto simp: str_split_not_Nil split: list.splits)
    with Cons.IH [of p] False show ?thesis by auto
  qed
qed

lemma str_split_pair: "str_split c s = [a, b] \<Longrightarrow> s = a @ c # b \<and> c \<notin> set a \<and> c \<notin> set b"
proof (induction s arbitrary: a)
  case Nil
  then show ?case by simp
next
  case (Cons x xs)
  show ?case
  proof (cases "x = c")
    case True
    with Cons.prems have "a = []" "str_split c xs = [b]" by simp_all
    with str_split_single [of c xs b] True show ?thesis by simp
  next
    case False
    with Cons.prems obtain p where "str_split c xs = [p, b]" "a = x # p"
      by (auto simp: str_split_not_Nil split: list.splits)
    with Cons.IH [of p] False show ?thesis by auto
  qed
qed

lemma check_pieces_ok: "(\<forall>p\<in>set ps. isidentifier p) \<Longrightarrow> check_pieces ps = Inr ()"
  by (induction ps) auto

lemma check_pieces_bad:
  "\<exists>p\<in>set ps. \<not> isidentifier p
     \<Longrightarrow> \<exists>p\<in>set ps. \<not> isidentifier p \<and> check_pieces ps = Inl (ValueError (NotModulePath p))"
  by (induction ps) auto

lemma check_pieces_Inr: "check_pieces ps = Inr u \<Longrightarrow> \<forall>p\<in>set ps. isidentifier p"
  by (induction ps) (auto split: if_splits)

lemma check_pieces_Inl: "check_pieces ps = Inl e \<Longrightarrow> \<exists>v. e = ValueError v"
  by (induction ps) (auto split: if_splits)

lemma split_colon:
  "CHR '':'' \<notin> set m \<Longrightarrow> CHR '':'' \<notin> set f \<Longrightarrow> str_split CHR '':'' (m @ '':'' @ f) = [m, f]"
  by (simp add: str_split_at_sep str_split_no_sep)

text \<open>
  Claim C6: \<open>parse_entry_point\<close> returns the pair of module path and function name for
  every string with exactly one colon (a module part and a function part, neither
  holding a colon) whose function part is an identifier and whose module part splits at
  the dots into identifiers; it fails with a \<open>ValueError\<close> when there is no colon, when
  the function part is not an identifier, and when some segment of the module path is
  not an identifier. It succeeds on no other string, and every failure is a
  \<open>ValueError\<close>.
\<close>

theorem parse_entry_point_spec:
  "(CHR '':'' \<notin> set m \<and> CHR '':'' \<notin> set f \<and> isidentifier f
      \<and> (\<forall>p\<in>set (str_split CHR ''.'' m). isidentifier p)
     \<longrightarrow> parse_entry_point (m @ '':'' @ f) = Inr (m, f))
   \<and> (CHR '':'' \<notin> set ep \<longrightarrow> parse_entry_point ep = Inl (ValueError (NoColon ep)))
   \<and> (CHR '':'' \<notin> set m \<and> CHR '':'' \<notin> set f \<and> \<not> isidentifier f
     \<longrightarrow> parse_entry_point (m @ '':'' @ f) = Inl (ValueError (NotIdentifier f)))
   \<and> (CHR '':'' \<notin> set m \<and> CHR '':'' \<notin> set f \<and> isidentifier f
      \<and> (\<exists>p\<in>set (str_split CHR ''.'' m). \<not> isidentifier p)
     \<longrightarrow> (\<exists>p\<in>set (str_split CHR ''.'' m). \<not> isidentifier p
            \<and> parse_entry_point (m @ '':'' @ f) = Inl (ValueError (NotModulePath p))))
   \<and> (parse_entry_point ep = Inr (m', f')
     \<longrightarrow> ep = m' @ '':'' @ f' \<and> CHR '':'' \<notin> set m' \<and> CHR '':'' \<notin> set f' \<and> isidentifier f'
         \<and> (\<forall>p\<in>set (str_split CHR ''.'' m'). isidentifier p))
   \<and> (\<exists>r. parse_entry_point ep = Inr r) \<noteq> (\<exists>v. parse_entry_point ep = Inl (ValueError v))"
proof -
  have c1: "CHR '':'' \<notin> set m \<and> CHR '':'' \<notin> set f \<and> isidentifier f
      \<and> (\<forall>p\<in>set (str_split CHR ''.'' m). isidentifier p)
     \<longrightarrow> parse_entry_point (m @ '':'' @ f) = Inr (m, f)"
    using split_colon [of m f]
    by (simp add: parse_entry_point_def check_pieces_ok)
  have c2: "CHR '':'' \<notin> set ep \<longrightarrow> parse_entry_point ep = Inl (ValueError (NoColon ep))"
    by (simp add: parse_entry_point_def)
  have c3: "CHR '':'' \<notin> set m \<and> CHR '':'' \<notin> set f \<and> \<not> isidentifier f
     \<longrightarrow> parse_entry_point (m @ '':'' @ f) = Inl (ValueError (NotIdentifier f))"
    using split_colon [of m f]
    by (simp add: parse_entry_point_def)
  have c4: "CHR '':'' \<notin> set m \<and> CHR '':'' \<notin> set f \<and> isidentifier f
      \<and> (\<exists>p\<in>set (str_split CHR ''.'' m). \<not> isidentifier p)
     \<longrightarrow> (\<exists>p\<in>set (str_split CHR ''.'' m). \<not> isidentifier p
            \<and> parse_entry_point (m @ '':'' @ f) = Inl (ValueError (NotModulePath p)))"
  proof
    assume a: "CHR '':'' \<notin> set m \<and> CHR '':'' \<notin> set f \<and> isidentifier f
      \<and> (\<exists>p\<in>set (str_split CHR ''.'' m). \<not> isidentifier p)"
    then obtain p where p: "p \<in> set (str_split CHR ''.'' m)" "\<not> isidentifier p"
      "check_pieces (str_split CHR ''.'' m) = Inl (ValueError (NotModulePath p))"
      using check_pieces_bad [of "str_split CHR ''.'' m"] by blast
    from a p(3) have "parse_entry_point (m @ '':'' @ f) = Inl (ValueError (NotModulePath p))"
      using split_colon [of m f]
      by (simp add: parse_entry_point_def)
    with p show "\<exists>p\<in>set (str_split CHR ''.'' m). \<not> isidentifier p
            \<and> parse_entry_point (m @ '':'' @ f) = Inl (ValueError (NotModulePath p))"
      by blast
  qed
  have c5: "parse_entry_point ep = Inr (m', f')
     \<longrightarrow> ep = m' @ '':'' @ f' \<and> CHR '':'' \<notin> set m' \<and> CHR '':'' \<notin> set f' \<and> isidentifier f'
         \<and> (\<forall>p\<in>set (str_split CHR ''.'' m'). isidentifier p)"
  proof
    assume r: "parse_entry_point ep = Inr (m', f')"
    then have sp: "str_split CHR '':'' ep = [m', f']" and idf: "isidentifier f'"
      and cp: "check_pieces (str_split CHR ''.'' m') = Inr ()"
      by (auto simp: parse_entry_point_def split: if_splits list.splits sum.splits)
    from str_split_pair [OF sp] idf check_pieces_Inr [OF cp]
    show "ep = m' @ '':'' @ f' \<and> CHR '':'' \<notin> set m' \<and> CHR '':'' \<notin> set f' \<and> isidentifier f'
         \<and> (\<forall>p\<in>set (str_split CHR ''.'' m'). isidentifier p)"
      by simp
  qed
  have c6: "(\<exists>r. parse_entry_point ep = Inr r) \<noteq> (\<exists>v. parse_entry_point ep = Inl (ValueError v))"
  proof (cases "parse_entry_point ep")
    case (Inl e)
    then have "\<exists>v. e = ValueError v"
      by (auto simp: parse_entry_point_def split: if_splits list.splits sum.splits
               dest: check_pieces_Inl)
    with Inl show ?thesis by auto
  next
    case (Inr r)
    then show ?thesis by auto
  qed
  show ?thesis
    by (intro conjI) (rule c1 c2 c3 c4 c5 c6)+
qed

text \<open>The examples of the specification, and an empty segment in the module path.\<close>

theorem parse_entry_point_spec_witness:
  "parse_entry_point ''pkg.sub:run'' = Inr (''pkg.sub'', ''run'')
   \<and> parse_entry_point ''pkg.sub.run'' = Inl (ValueError (NoColon ''pkg.sub.run''))
   \<and> parse_entry_point ''pkg:1bad'' = Inl (ValueError (NotIdentifier ''1bad''))
   \<and> parse_entry_point ''pkg..sub:run'' = Inl (ValueError (NotModulePath []))"
proof -
  have 1: "parse_entry_point ''pkg.sub:run'' = Inr (''pkg.sub'', ''run'')"
    using parse_entry_point_spec [of "''pkg.sub''" "''run''"]
    by (simp add: xid_start_def xid_continue_def code_point_def)
  have 2: "parse_entry_point ''pkg.sub.run'' = Inl (ValueError (NoColon ''pkg.sub.run''))"
    using parse_entry_point_spec [of _ _ "''pkg.sub.run''"]
    by simp
  have 3: "parse_entry_point ''pkg:1bad'' = Inl (ValueError (NotIdentifier ''1bad''))"
    using parse_entry_point_spec [of "''pkg''" "''1bad''"]
    by (simp add: xid_start_def xid_continue_def code_point_def)
  have 4: "parse_entry_point ''pkg..sub:run'' = Inl (ValueError (NotModulePath []))"
    using parse_entry_point_spec [of "''pkg..sub''" "''run''"]
    by (simp add: xid_start_def xid_continue_def code_point_def)
  from 1 2 3 4 show ?thesis by blast
qed

section \<open>Version checking: proofs\<close>






section \<open>Docstring and version of a module: proofs\<close>

lemma find_version_skips:
  "\<forall>c\<in>set pre. is_version_str c = Inr False \<Longrightarrow> find_version (pre @ rest) = find_version rest"
  by (induction pre) simp_all

text \<open>
  Claim C10: the static pass is not total over syntactically valid modules. Whenever
  the top-level statements reach, before any assignment of a string to \<open>__version__\<close>,
  an assignment with a single target that is not a plain name (an attribute, a
  subscript, a tuple), reading \<open>targets[0].id\<close> raises \<open>AttributeError\<close>, which nothing
  catches: the statement is not skipped, no \<open>ProblemInModule\<close> is raised, and
  \<open>get_info_from_module\<close> fails with it before any import.
\<close>

theorem ast_scan_attribute_error:
  "(\<forall>c\<in>set pre. is_version_str c = Inr False) \<and> (\<forall>x. t \<noteq> Name x)
     \<longrightarrow> get_docstring_and_version_via_ast cleandoc (pre @ Assign [t] val # post)
           = Inl AttributeError
         \<and> get_info_from_module cleandoc (pre @ Assign [t] val # post) imported
           = ([LogDebug, AstPass], Inl AttributeError)"
proof
  assume a: "(\<forall>c\<in>set pre. is_version_str c = Inr False) \<and> (\<forall>x. t \<noteq> Name x)"
  then have "find_version (pre @ Assign [t] val # post) = find_version (Assign [t] val # post)"
    by (simp add: find_version_skips)
  also from a have "\<dots> = Inl AttributeError"
    by (cases t) simp_all
  finally have "get_docstring_and_version_via_ast cleandoc (pre @ Assign [t] val # post)
           = Inl AttributeError"
    by (simp add: get_docstring_and_version_via_ast_def)
  then show "get_docstring_and_version_via_ast cleandoc (pre @ Assign [t] val # post)
           = Inl AttributeError
         \<and> get_info_from_module cleandoc (pre @ Assign [t] val # post) imported
           = ([LogDebug, AstPass], Inl AttributeError)"
    by (simp add: get_info_from_module_def)
qed

text \<open>A module with a docstring, then \<^verbatim>\<open>obj.attr = 1\<close>, then a version.\<close>

theorem ast_scan_attribute_error_witness:
  "get_docstring_and_version_via_ast (\<lambda>s. s)
     [Expr (Str ''A module.''), Assign [Attribute (Name ''obj'') ''attr''] (Num 1),
      Assign [Name ''__version__''] (Str ''1.0'')]
   = Inl AttributeError
   \<and> get_info_from_module (\<lambda>s. s)
     [Expr (Str ''A module.''), Assign [Attribute (Name ''obj'') ''attr''] (Num 1),
      Assign [Name ''__version__''] (Str ''1.0'')]
     (Inr (PyStr ''A module.'', PyStr ''1.0''))
   = ([LogDebug, AstPass], Inl AttributeError)"
  using ast_scan_attribute_error [of "[Expr (Str ''A module.'')]" "Attribute (Name ''obj'') ''attr''"
      "\<lambda>s. s" "Num 1" "[Assign [Name ''__version__''] (Str ''1.0'')]"
      "Inr (PyStr ''A module.'', PyStr ''1.0'')"]
  by simp

lemma truthy_of_opt: "truthy (of_opt x) \<longleftrightarrow> x \<noteq> None \<and> x \<noteq> Some []"
  by (cases x) (simp_all add: of_opt_def)

lemma strip_Nil_iff: "strip s = [] \<longleftrightarrow> list_all isspace s"
proof (cases "dropWhile isspace s")
  case Nil
  then have "list_all isspace s"
    using dropWhile_eq_Nil_conv [of isspace s] by (simp add: list_all_iff)
  moreover have "strip s = []" unfolding strip_def Nil by simp
  ultimately show ?thesis by simp
next
  case (Cons x xs)
  then have nx: "\<not> isspace x" using hd_dropWhile [of isspace s] by auto
  have "dropWhile isspace (rev xs @ [x]) \<noteq> []"
    using nx by (simp add: dropWhile_append)
  moreover from Cons have "\<not> list_all isspace s"
    using dropWhile_eq_Nil_conv [of isspace s] by (simp add: list_all_iff)
  moreover have "strip s = rev (dropWhile isspace (rev xs @ [x]))"
    unfolding strip_def Cons by simp
  ultimately show ?thesis by simp
qed

lemma check_version_logs:
  "check_version v = Inr (canonical, logs) \<Longrightarrow> logs = [] \<or> (\<exists>s. logs = [LogWarning s])"
  by (auto simp: check_version_def Let_def split: if_splits pyval.splits list.splits)

lemma get_info_unfold:
  assumes "get_docstring_and_version_via_ast cleandoc body = Inr (d, v)"
  shows "get_info_from_module cleandoc body imported =
     (let evs = [LogDebug, AstPass] @ (if static_incomplete d v then [LogDebug, ImportPass] else [])
      in case (if static_incomplete d v then imported else Inr (of_opt d, of_opt v)) of
           Inl e \<Rightarrow> (evs, Inl e)
         | Inr (docstring, ver) \<Rightarrow>
             (if \<not> truthy docstring then (evs, Inl NoDocstringError)
              else (case docstring of
                      PyStr s \<Rightarrow>
                        (if strip s = [] then (evs, Inl NoDocstringError)
                         else (case check_version ver of
                                 Inl e \<Rightarrow> (evs, Inl e)
                               | Inr (canonical, logs) \<Rightarrow>
                                   (case splitlines (lstrip s) of
                                      [] \<Rightarrow> (evs @ logs, Inl IndexError)
                                    | line # _ \<Rightarrow>
                                        (evs @ logs,
                                         Inr \<lparr>info_summary = line, info_version = ver\<rparr>))))
                    | _ \<Rightarrow> (evs, Inl AttributeError))))"
proof -
  have fb: "(\<not> (truthy (of_opt d) \<and> truthy (of_opt v))) = static_incomplete d v"
    by (auto simp: truthy_of_opt static_incomplete_def)
  show ?thesis
    unfolding get_info_from_module_def assms sum.case prod.case Let_def fb
    by (rule refl)
qed

lemma get_info_trace:
  assumes "get_docstring_and_version_via_ast cleandoc body = Inr (d, v)"
  shows "\<exists>logs. fst (get_info_from_module cleandoc body imported)
            = [LogDebug, AstPass] @ (if static_incomplete d v then [LogDebug, ImportPass] else []) @ logs
          \<and> (logs = [] \<or> (\<exists>s. logs = [LogWarning s]))"
proof -
  define evs where "evs = [LogDebug, AstPass] @ (if static_incomplete d v then [LogDebug, ImportPass] else [])"
  define R where "R = (if static_incomplete d v then imported else Inr (of_opt d, of_opt v))"
  note u = get_info_unfold [OF assms, of imported, folded evs_def R_def, unfolded Let_def]
  have "\<exists>logs. fst (get_info_from_module cleandoc body imported) = evs @ logs
          \<and> (logs = [] \<or> (\<exists>s. logs = [LogWarning s]))"
  proof (cases R)
    case (Inl e)
    then show ?thesis unfolding u by simp
  next
    case (Inr p)
    obtain docstring ver where p: "p = (docstring, ver)" by (cases p)
    show ?thesis
    proof (cases "truthy docstring")
      case False
      with Inr p show ?thesis unfolding u by simp
    next
      case True
      show ?thesis
      proof (cases docstring)
        case (PyStr s)
        show ?thesis
        proof (cases "strip s = []")
          case True
          with Inr p PyStr \<open>truthy docstring\<close> show ?thesis unfolding u by simp
        next
          case False
          show ?thesis
          proof (cases "check_version ver")
            case (Inl e)
            with Inr p PyStr False \<open>truthy docstring\<close> show ?thesis unfolding u by simp
          next
            case r: (Inr q)
            obtain canonical logs where q: "q = (canonical, logs)" by (cases q)
            from r q have "logs = [] \<or> (\<exists>s. logs = [LogWarning s])"
              by (auto dest: check_version_logs)
            moreover have "fst (get_info_from_module cleandoc body imported) = evs @ logs"
              using Inr p PyStr False \<open>truthy docstring\<close> r q unfolding u
              by (cases "splitlines (lstrip s)") simp_all
            ultimately show ?thesis by blast
          qed
        qed
      qed (use Inr p True in \<open>simp_all add: u\<close>)
    qed
  qed
  then show ?thesis by (simp add: evs_def)
qed


text \<open>
  Claim C4: \<open>get_info_from_module\<close> always runs the static pass first (and once), and
  runs the import pass if and only if the static pass returned with a docstring that is
  missing or empty or a version that is missing or empty; and if the docstring it then
  has, from the import when that ran and returned and from the static pass otherwise,
  is missing, empty or only whitespace, it raises \<open>NoDocstringError\<close>.
\<close>

theorem get_info_from_module_passes:
  "(\<exists>rest. fst (get_info_from_module cleandoc body imported) = LogDebug # AstPass # rest
           \<and> AstPass \<notin> set rest)
   \<and> (ImportPass \<in> set (fst (get_info_from_module cleandoc body imported))
        \<longleftrightarrow> (\<exists>d v. get_docstring_and_version_via_ast cleandoc body = Inr (d, v)
                  \<and> static_incomplete d v))
   \<and> (get_docstring_and_version_via_ast cleandoc body = Inr (d, v)
        \<and> (if static_incomplete d v then imported else Inr (of_opt d, of_opt v))
            = Inr (docstring, ver)
        \<and> (docstring = PyNone \<or> (\<exists>s. docstring = PyStr s \<and> list_all isspace s))
       \<longrightarrow> get_info_from_module cleandoc body imported
            = ([LogDebug, AstPass] @ (if static_incomplete d v then [LogDebug, ImportPass] else []),
               Inl NoDocstringError))"
proof -
  have c12: "(\<exists>rest. fst (get_info_from_module cleandoc body imported) = LogDebug # AstPass # rest
           \<and> AstPass \<notin> set rest)
   \<and> (ImportPass \<in> set (fst (get_info_from_module cleandoc body imported))
        \<longleftrightarrow> (\<exists>d v. get_docstring_and_version_via_ast cleandoc body = Inr (d, v)
                  \<and> static_incomplete d v))"
  proof (cases "get_docstring_and_version_via_ast cleandoc body")
    case (Inl e)
    then have "get_info_from_module cleandoc body imported = ([LogDebug, AstPass], Inl e)"
      by (simp add: get_info_from_module_def)
    with Inl show ?thesis by simp
  next
    case (Inr p)
    obtain d' v' where p: "p = (d', v')" by (cases p)
    from get_info_trace [of cleandoc body d' v' imported] Inr p
    obtain logs where l: "fst (get_info_from_module cleandoc body imported)
            = [LogDebug, AstPass] @ (if static_incomplete d' v' then [LogDebug, ImportPass] else []) @ logs"
      "logs = [] \<or> (\<exists>s. logs = [LogWarning s])"
      by blast
    from l(2) have nl: "AstPass \<notin> set logs" "ImportPass \<notin> set logs" by auto
    from l(1) nl Inr p show ?thesis
      by (cases "static_incomplete d' v'") simp_all
  qed
  have c3: "get_docstring_and_version_via_ast cleandoc body = Inr (d, v)
        \<and> (if static_incomplete d v then imported else Inr (of_opt d, of_opt v))
            = Inr (docstring, ver)
        \<and> (docstring = PyNone \<or> (\<exists>s. docstring = PyStr s \<and> list_all isspace s))
       \<longrightarrow> get_info_from_module cleandoc body imported
            = ([LogDebug, AstPass] @ (if static_incomplete d v then [LogDebug, ImportPass] else []),
               Inl NoDocstringError)"
  proof
    assume a: "get_docstring_and_version_via_ast cleandoc body = Inr (d, v)
        \<and> (if static_incomplete d v then imported else Inr (of_opt d, of_opt v))
            = Inr (docstring, ver)
        \<and> (docstring = PyNone \<or> (\<exists>s. docstring = PyStr s \<and> list_all isspace s))"
    define evs where
      "evs = [LogDebug, AstPass] @ (if static_incomplete d v then [LogDebug, ImportPass] else [])"
    define R where "R = (if static_incomplete d v then imported else Inr (of_opt d, of_opt v))"
    from a have ast: "get_docstring_and_version_via_ast cleandoc body = Inr (d, v)" by simp
    note u = get_info_unfold [OF ast, of imported, folded evs_def R_def, unfolded Let_def]
    from a have R: "R = Inr (docstring, ver)" by (simp add: R_def)
    from a consider "docstring = PyNone" | s where "docstring = PyStr s" "list_all isspace s"
      by blast
    then have "get_info_from_module cleandoc body imported = (evs, Inl NoDocstringError)"
    proof cases
      case 1
      with R show ?thesis unfolding u by simp
    next
      case 2
      then have "strip s = []" by (simp add: strip_Nil_iff)
      with 2 R show ?thesis unfolding u by simp
    qed
    then show "get_info_from_module cleandoc body imported
            = ([LogDebug, AstPass] @ (if static_incomplete d v then [LogDebug, ImportPass] else []),
               Inl NoDocstringError)"
      by (simp add: evs_def)
  qed
  from c12 c3 show ?thesis by blast
qed

text \<open>
  A module with a version and no docstring, whose import gives no docstring either; and
  a module with both, which is not imported.
\<close>

theorem get_info_from_module_passes_witness:
  "get_info_from_module (\<lambda>s. s) [Assign [Name ''__version__''] (Str ''1.0'')]
       (Inr (PyNone, PyStr ''1.0''))
     = ([LogDebug, AstPass, LogDebug, ImportPass], Inl NoDocstringError)
   \<and> ImportPass \<notin> set (fst (get_info_from_module (\<lambda>s. s)
         [Expr (Str ''Doc.''), Assign [Name ''__version__''] (Str ''1.0'')]
         (Inl (OtherError ''not imported''))))"
proof -
  have 1: "get_info_from_module (\<lambda>s. s) [Assign [Name ''__version__''] (Str ''1.0'')]
       (Inr (PyNone, PyStr ''1.0''))
     = ([LogDebug, AstPass, LogDebug, ImportPass], Inl NoDocstringError)"
    using get_info_from_module_passes [of "\<lambda>s. s" "[Assign [Name ''__version__''] (Str ''1.0'')]"
        "Inr (PyNone, PyStr ''1.0'')" None "Some ''1.0''" PyNone "PyStr ''1.0''"]
    by (simp add: get_docstring_and_version_via_ast_def static_incomplete_def)
  have 2: "ImportPass \<notin> set (fst (get_info_from_module (\<lambda>s. s)
         [Expr (Str ''Doc.''), Assign [Name ''__version__''] (Str ''1.0'')]
         (Inl (OtherError ''not imported''))))"
    using get_info_from_module_passes [of "\<lambda>s. s"
        "[Expr (Str ''Doc.''), Assign [Name ''__version__''] (Str ''1.0'')]"
        "Inl (OtherError ''not imported'')"]
    by (simp add: get_docstring_and_version_via_ast_def static_incomplete_def)
  from 1 2 show ?thesis by blast
qed

end
